theory Spec2Isabelle
  imports Complex_Main
begin

section \<open>Python string primitives used by the renaming pipeline\<close>

text \<open>
  Python strings are modelled as \<^typ>\<open>string\<close>. Every character the code inspects
  (the invalid filename characters, underscore, period, space, ASCII letters) is ASCII, so
  a non-ASCII code point may be read as its UTF-8 bytes: none of those bytes is an ASCII
  character, and the functions below treat them as opaque.
\<close>

text \<open>\<^verbatim>\<open>s.replace(old, new)\<close> for a single character \<open>old\<close>.\<close>

definition str_replace_char :: "char \<Rightarrow> char \<Rightarrow> string \<Rightarrow> string" where
  "str_replace_char old new s = map (\<lambda>c. if c = old then new else c) s"

text \<open>\<^verbatim>\<open>'__' in s\<close>: two adjacent underscores somewhere in \<open>s\<close>.\<close>

fun has_double_underscore :: "string \<Rightarrow> bool" where
  "has_double_underscore (a # b # s) =
     ((a = CHR ''_'' \<and> b = CHR ''_'') \<or> has_double_underscore (b # s))"
| "has_double_underscore _ = False"

text \<open>
  \<^verbatim>\<open>s.replace('__', '_')\<close>: Python scans from the left and replaces non-overlapping
  occurrences, so after a replaced pair the scan resumes behind the pair.
\<close>

fun replace_double_underscore :: "string \<Rightarrow> string" where
  "replace_double_underscore (a # b # s) =
     (if a = CHR ''_'' \<and> b = CHR ''_'' then CHR ''_'' # replace_double_underscore s
      else a # replace_double_underscore (b # s))"
| "replace_double_underscore s = s"

text \<open>\<^verbatim>\<open>s.strip(chars)\<close>: drop leading and trailing characters that occur in \<open>chars\<close>.\<close>

definition str_strip :: "string \<Rightarrow> string \<Rightarrow> string" where
  "str_strip chars s =
     rev (dropWhile (\<lambda>c. c \<in> set chars) (rev (dropWhile (\<lambda>c. c \<in> set chars) s)))"

section \<open>\<^verbatim>\<open>utils/path_helpers.py\<close>: \<^verbatim>\<open>clean_filename\<close>\<close>

text \<open>The literal \<^verbatim>\<open>'<>:"/\\|?*'\<close>; \<open>0x22\<close> is the double quote and \<open>0x5C\<close> the backslash.\<close>

definition invalid_chars :: string where
  "invalid_chars =
     [CHR ''<'', CHR ''>'', CHR '':'', CHR 0x22, CHR ''/'', CHR 0x5C, CHR ''|'', CHR ''?'', CHR ''*'']"

lemma replace_double_underscore_length:
  "length (replace_double_underscore s) \<le> length s"
  by (induction s rule: replace_double_underscore.induct) auto

lemma replace_double_underscore_shrinks:
  "has_double_underscore s \<Longrightarrow> length (replace_double_underscore s) < length s"
proof (induction s rule: replace_double_underscore.induct)
  case (1 a b s)
  show ?case
  proof (cases "a = CHR ''_'' \<and> b = CHR ''_''")
    case True
    then show ?thesis
      using replace_double_underscore_length [of s] by (simp add: less_Suc_eq_le)
  next
    case False
    with 1 show ?thesis by auto
  qed
qed simp_all

text \<open>
  The loop \<^verbatim>\<open>while '__' in cleaned: cleaned = cleaned.replace('__', '_')\<close>. Each pass
  shortens the string, which is the termination argument.
\<close>

function collapse_underscores :: "string \<Rightarrow> string" where
  "collapse_underscores s =
     (if has_double_underscore s then collapse_underscores (replace_double_underscore s) else s)"
  by pat_completeness auto
termination
  by (relation "measure length") (auto simp: replace_double_underscore_shrinks)

declare collapse_underscores.simps [simp del]

definition clean_filename :: "string \<Rightarrow> string" where
  "clean_filename filename =
     (let cleaned = fold (\<lambda>char cleaned. str_replace_char char CHR ''_'' cleaned)
                      invalid_chars filename;
          cleaned = collapse_underscores cleaned;
          cleaned = str_strip ''. '' cleaned
      in if cleaned = [] then ''unnamed'' else cleaned)"

section \<open>\<^verbatim>\<open>pathlib\<close> paths, the file system and the conflict resolver\<close>

text \<open>\<^verbatim>\<open>str(n)\<close> for a non-negative integer: its decimal digits.\<close>

fun str_nat :: "nat \<Rightarrow> string" where
  "str_nat n =
     (if n < 10 then [''0123456789'' ! n]
      else str_nat (n div 10) @ [''0123456789'' ! (n mod 10)])"

declare str_nat.simps [simp del]

text \<open>\<^verbatim>\<open>s.rfind(c)\<close>: the index of the last occurrence, \<open>None\<close> for Python's \<open>-1\<close>.\<close>

fun rfind :: "string \<Rightarrow> char \<Rightarrow> nat option" where
  "rfind [] c = None"
| "rfind (x # s) c =
     (case rfind s c of
        Some i \<Rightarrow> Some (Suc i)
      | None \<Rightarrow> if x = c then Some 0 else None)"

text \<open>
  A \<^verbatim>\<open>Path\<close> is its directory (\<^verbatim>\<open>path.parent\<close>, kept as text) and its final component
  (\<^verbatim>\<open>path.name\<close>). \<^verbatim>\<open>suffix\<close> and \<^verbatim>\<open>stem\<close> follow \<^verbatim>\<open>pathlib\<close>: with \<open>i\<close> the position of
  the last period of the name, the suffix is \<^verbatim>\<open>name[i:]\<close> and the stem \<^verbatim>\<open>name[:i]\<close> when
  \<^verbatim>\<open>0 < i < len(name) - 1\<close>; otherwise the suffix is empty and the stem is the whole name.
  \<^verbatim>\<open>parent / new_name\<close> is \<open>joinpath\<close>; the model covers a \<open>new_name\<close> that is a single
  component (no path separator in it).
\<close>

record path =
  parent :: string
  name :: string

definition suffix :: "path \<Rightarrow> string" where
  "suffix p =
     (case rfind (name p) CHR ''.'' of
        None \<Rightarrow> []
      | Some i \<Rightarrow> if 0 < i \<and> Suc i < length (name p) then drop i (name p) else [])"

definition stem :: "path \<Rightarrow> string" where
  "stem p =
     (case rfind (name p) CHR ''.'' of
        None \<Rightarrow> name p
      | Some i \<Rightarrow> if 0 < i \<and> Suc i < length (name p) then take i (name p) else name p)"

definition joinpath :: "string \<Rightarrow> string \<Rightarrow> path" where
  "joinpath base_path new_name = \<lparr>parent = base_path, name = new_name\<rparr>"

text \<open>
  The file system as the code observes it: the paths that exist, each with its size in bytes
  (\<^verbatim>\<open>path.stat().st_size\<close>). \<^verbatim>\<open>path.exists()\<close> is \<open>path_exists\<close>.
\<close>

type_synonym filesystem = "path \<rightharpoonup> nat"

definition path_exists :: "filesystem \<Rightarrow> path \<Rightarrow> bool" where
  "path_exists fs p = (fs p \<noteq> None)"

text \<open>
  \<^verbatim>\<open>RENAME_CONFIG["duplicate_format"].format(n=counter)\<close> with the configured
  \<^verbatim>\<open>"({n})"\<close>.
\<close>

definition duplicate_format :: "nat \<Rightarrow> string" where
  "duplicate_format n = ''('' @ str_nat n @ '')''"

text \<open>
  The two names the resolver builds: \<^verbatim>\<open>f"{stem}{duplicate_suffix}{suffix}"\<close> for a counter,
  and \<^verbatim>\<open>f"{stem}_{timestamp}{suffix}"\<close> with \<^verbatim>\<open>timestamp = int(time.time())\<close>. The clock
  reading is the parameter \<open>now\<close> (seconds since the epoch, a natural number).
\<close>

definition numbered_candidate :: "(nat \<Rightarrow> string) \<Rightarrow> path \<Rightarrow> nat \<Rightarrow> path" where
  "numbered_candidate fmt target_path counter =
     joinpath (parent target_path) (stem target_path @ fmt counter @ suffix target_path)"

definition timestamp_candidate :: "nat \<Rightarrow> path \<Rightarrow> path" where
  "timestamp_candidate timestamp target_path =
     joinpath (parent target_path)
       (stem target_path @ ''_'' @ str_nat timestamp @ suffix target_path)"

text \<open>
  The \<^verbatim>\<open>while True\<close> loop of \<^verbatim>\<open>resolve_filename_conflict\<close> and of \<^verbatim>\<open>get_unique_filename\<close>. Each
  \<^verbatim>\<open>new_path.exists()\<close> is a read of the file system; the paths probed so far are returned
  next to the result, so that the number of probes can be stated. The loop is entered with
  \<open>counter = 1\<close>; it recurses only while \<open>counter \<le> 9999\<close>, which is the termination measure.
\<close>

function resolve_loop ::
  "filesystem \<Rightarrow> (nat \<Rightarrow> string) \<Rightarrow> nat \<Rightarrow> path \<Rightarrow> nat \<Rightarrow> path list \<Rightarrow> path \<times> path list" where
  "resolve_loop fs fmt now target_path counter probed =
     (let new_path = numbered_candidate fmt target_path counter;
          probed = probed @ [new_path]
      in if \<not> path_exists fs new_path then (new_path, probed)
         else let counter = counter + 1
              in if counter > 9999 then (timestamp_candidate now target_path, probed)
                 else resolve_loop fs fmt now target_path counter probed)"
  by pat_completeness auto
termination
  by (relation "measure (\<lambda>(fs, fmt, now, target_path, counter, probed). 10000 - counter)") auto

declare resolve_loop.simps [simp del]

definition resolve_probes ::
  "filesystem \<Rightarrow> (nat \<Rightarrow> string) \<Rightarrow> nat \<Rightarrow> path \<Rightarrow> path \<times> path list" where
  "resolve_probes fs fmt now target_path =
     (if \<not> path_exists fs target_path then (target_path, [])
      else resolve_loop fs fmt now target_path 1 [])"

text \<open>
  \<^verbatim>\<open>RenameService.resolve_filename_conflict\<close> formats the counter with the configured
  format; \<^verbatim>\<open>path_helpers.get_unique_filename\<close> has \<^verbatim>\<open>f"({counter})"\<close> written out.
\<close>

definition resolve_filename_conflict :: "filesystem \<Rightarrow> nat \<Rightarrow> path \<Rightarrow> path" where
  "resolve_filename_conflict fs now target_path =
     fst (resolve_probes fs duplicate_format now target_path)"


section \<open>Exceptions and external collaborators\<close>

text \<open>
  Python exceptions are values; \<open>str_exception\<close> is \<^verbatim>\<open>str(e)\<close>. A function that may raise
  returns \<open>exception + 'a\<close>, with \<open>Inl\<close> for the raised exception.
\<close>

datatype exception =
    FileNotFoundError string
  | ValueError string
  | IndexError string
  | OSError string

fun str_exception :: "exception \<Rightarrow> string" where
  "str_exception (FileNotFoundError m) = m"
| "str_exception (ValueError m) = m"
| "str_exception (IndexError m) = m"
| "str_exception (OSError m) = m"

definition str_path :: "path \<Rightarrow> string" where
  "str_path p = parent p @ ''/'' @ name p"

text \<open>
  The \<^verbatim>\<open>face_recognition\<close> library is outside the repository. Its four functions used by the
  service are parameters: each may raise, an image is an opaque \<open>'img\<close>, an encoding an opaque
  \<open>'e\<close>, a face location a box \<^verbatim>\<open>(top, right, bottom, left)\<close>, and a distance a real number
  (the floating-point distances of the library, without NaN).
\<close>

type_synonym box = "int \<times> int \<times> int \<times> int"

record ('img, 'e) face_recognition =
  load_image_from_file :: "path \<Rightarrow> exception + 'img"
  face_locations :: "'img \<Rightarrow> exception + box list"
  face_encodings :: "'img \<Rightarrow> box list \<Rightarrow> exception + 'e list"
  face_distance :: "'e list \<Rightarrow> 'e \<Rightarrow> exception + real list"

text \<open>
  \<^verbatim>\<open>np.argmin\<close> on a one-dimensional array: a left-to-right scan that keeps the first index of
  the smallest value seen; it raises \<^verbatim>\<open>ValueError\<close> on an empty array. \<open>getitem\<close> is indexing
  \<^verbatim>\<open>xs[i]\<close> with a non-negative index, which raises \<^verbatim>\<open>IndexError\<close> out of range.
\<close>

fun argmin_from :: "real \<Rightarrow> nat \<Rightarrow> nat \<Rightarrow> real list \<Rightarrow> nat" where
  "argmin_from best best_idx i [] = best_idx"
| "argmin_from best best_idx i (x # xs) =
     (if x < best then argmin_from x i (Suc i) xs else argmin_from best best_idx (Suc i) xs)"

definition argmin :: "real list \<Rightarrow> exception + nat" where
  "argmin distances =
     (case distances of
        [] \<Rightarrow> Inl (ValueError ''attempt to get argmin of an empty sequence'')
      | x # xs \<Rightarrow> Inr (argmin_from x 0 1 xs))"

definition getitem :: "'a list \<Rightarrow> nat \<Rightarrow> exception + 'a" where
  "getitem xs i =
     (if i < length xs then Inr (xs ! i) else Inl (IndexError ''list index out of range''))"

section \<open>\<^verbatim>\<open>config.py\<close>\<close>

definition tolerance_config :: real where
  "tolerance_config = 6 / 10"

definition max_names_per_file :: nat where
  "max_names_per_file = 3"

definition name_separator :: string where
  "name_separator = ''_''"

definition SUPPORTED_IMAGE_FORMATS :: "string set" where
  "SUPPORTED_IMAGE_FORMATS =
     {''.jpg'', ''.jpeg'', ''.png'', ''.webp'', ''.jfif'', ''.bmp'', ''.tiff'', ''.tif''}"

definition max_image_size :: nat where
  "max_image_size = 50 * 1024 * 1024"

section \<open>\<^verbatim>\<open>core/face_service.py\<close>\<close>

text \<open>
  The state of a \<^verbatim>\<open>FaceService\<close>: the two parallel caches and the tolerance.
  \<^verbatim>\<open>_load_known_faces\<close> fills the caches from the rows \<^verbatim>\<open>(person_id, name, encoding)\<close> that
  \<^verbatim>\<open>db.get_all_face_encodings()\<close> returns, in the order of the rows; the constructor takes the
  tolerance from the configuration and loads the caches.
\<close>

record 'e face_service =
  known_encodings :: "'e list"
  known_names :: "string list"
  tolerance :: real

definition load_known_faces ::
  "(nat \<times> string \<times> 'e) list \<Rightarrow> 'e face_service \<Rightarrow> 'e face_service" where
  "load_known_faces face_data self =
     self\<lparr>known_encodings := map (\<lambda>(person_id, nm, encoding). encoding) face_data,
          known_names := map (\<lambda>(person_id, nm, encoding). nm) face_data\<rparr>"

definition FaceService :: "(nat \<times> string \<times> 'e) list \<Rightarrow> 'e face_service" where
  "FaceService face_data =
     load_known_faces face_data
       \<lparr>known_encodings = [], known_names = [], tolerance = tolerance_config\<rparr>"

text \<open>
  The message texts of \<^verbatim>\<open>detect_faces_in_image\<close>, as UTF-8 bytes: "image file not found: ",
  "image file too large: " and "image processing error: " in the Japanese of the source. The
  size in megabytes that the source appends to the second message is a formatted float and is
  left out; these three messages only reach the log.
\<close>

definition MSG_NOT_FOUND :: string where
  "MSG_NOT_FOUND =
     [CHR 0xE7, CHR 0x94, CHR 0xBB, CHR 0xE5, CHR 0x83, CHR 0x8F, CHR 0xE3, CHR 0x83, CHR 0x95,
      CHR 0xE3, CHR 0x82, CHR 0xA1, CHR 0xE3, CHR 0x82, CHR 0xA4, CHR 0xE3, CHR 0x83, CHR 0xAB,
      CHR 0xE3, CHR 0x81, CHR 0x8C, CHR 0xE8, CHR 0xA6, CHR 0x8B, CHR 0xE3, CHR 0x81, CHR 0xA4,
      CHR 0xE3, CHR 0x81, CHR 0x8B, CHR 0xE3, CHR 0x82, CHR 0x8A, CHR 0xE3, CHR 0x81, CHR 0xBE,
      CHR 0xE3, CHR 0x81, CHR 0x9B, CHR 0xE3, CHR 0x82, CHR 0x93, CHR '':'', CHR 0x20]"

definition MSG_TOO_LARGE :: string where
  "MSG_TOO_LARGE =
     [CHR 0xE7, CHR 0x94, CHR 0xBB, CHR 0xE5, CHR 0x83, CHR 0x8F, CHR 0xE3, CHR 0x83, CHR 0x95,
      CHR 0xE3, CHR 0x82, CHR 0xA1, CHR 0xE3, CHR 0x82, CHR 0xA4, CHR 0xE3, CHR 0x83, CHR 0xAB,
      CHR 0xE3, CHR 0x81, CHR 0x8C, CHR 0xE5, CHR 0xA4, CHR 0xA7, CHR 0xE3, CHR 0x81, CHR 0x8D,
      CHR 0xE3, CHR 0x81, CHR 0x99, CHR 0xE3, CHR 0x81, CHR 0x8E, CHR 0xE3, CHR 0x81, CHR 0xBE,
      CHR 0xE3, CHR 0x81, CHR 0x99, CHR '':'', CHR 0x20]"

definition MSG_IMAGE_ERROR :: string where
  "MSG_IMAGE_ERROR =
     [CHR 0xE7, CHR 0x94, CHR 0xBB, CHR 0xE5, CHR 0x83, CHR 0x8F, CHR 0xE5, CHR 0x87, CHR 0xA6,
      CHR 0xE7, CHR 0x90, CHR 0x86, CHR 0xE3, CHR 0x82, CHR 0xA8, CHR 0xE3, CHR 0x83, CHR 0xA9,
      CHR 0xE3, CHR 0x83, CHR 0xBC, CHR '':'', CHR 0x20]"

text \<open>
  \<^verbatim>\<open>detect_faces_in_image\<close>: the existence and size checks raise directly; every exception of
  the library calls inside the \<^verbatim>\<open>try\<close> block is re-raised as a \<^verbatim>\<open>ValueError\<close>.
\<close>

definition detect_faces_in_image ::
  "('img, 'e) face_recognition \<Rightarrow> filesystem \<Rightarrow> path \<Rightarrow> exception + ('e \<times> box) list" where
  "detect_faces_in_image lib fs image_path =
     (case fs image_path of
        None \<Rightarrow> Inl (FileNotFoundError (MSG_NOT_FOUND @ str_path image_path))
      | Some st_size \<Rightarrow>
          if st_size > max_image_size then Inl (ValueError MSG_TOO_LARGE)
          else
            (case load_image_from_file lib image_path of
               Inl e \<Rightarrow> Inl (ValueError (MSG_IMAGE_ERROR @ str_exception e))
             | Inr img \<Rightarrow>
                 (case face_locations lib img of
                    Inl e \<Rightarrow> Inl (ValueError (MSG_IMAGE_ERROR @ str_exception e))
                  | Inr locations \<Rightarrow>
                      if locations = [] then Inr []
                      else
                        (case face_encodings lib img locations of
                           Inl e \<Rightarrow> Inl (ValueError (MSG_IMAGE_ERROR @ str_exception e))
                         | Inr encodings \<Rightarrow> Inr (zip encodings locations)))))"

text \<open>
  \<^verbatim>\<open>identify_faces\<close>: \<open>identify_face\<close> is the body of its \<^verbatim>\<open>for\<close> loop for one encoding,
  \<open>identify_loop\<close> the loop, which stops at the first exception.
\<close>

definition identify_face ::
  "('img, 'e) face_recognition \<Rightarrow> 'e face_service \<Rightarrow> 'e \<Rightarrow> exception + string option" where
  "identify_face lib self encoding =
     (case face_distance lib (known_encodings self) encoding of
        Inl e \<Rightarrow> Inl e
      | Inr distances \<Rightarrow>
          (case argmin distances of
             Inl e \<Rightarrow> Inl e
           | Inr min_distance_idx \<Rightarrow>
               (case getitem distances min_distance_idx of
                  Inl e \<Rightarrow> Inl e
                | Inr min_distance \<Rightarrow>
                    if min_distance \<le> tolerance self then
                      (case getitem (known_names self) min_distance_idx of
                         Inl e \<Rightarrow> Inl e
                       | Inr nm \<Rightarrow> Inr (Some nm))
                    else Inr None)))"

fun identify_loop ::
  "('img, 'e) face_recognition \<Rightarrow> 'e face_service \<Rightarrow> 'e list \<Rightarrow> exception + string option list" where
  "identify_loop lib self [] = Inr []"
| "identify_loop lib self (encoding # rest) =
     (case identify_face lib self encoding of
        Inl e \<Rightarrow> Inl e
      | Inr nm \<Rightarrow>
          (case identify_loop lib self rest of
             Inl e \<Rightarrow> Inl e
           | Inr identified_names \<Rightarrow> Inr (nm # identified_names)))"

definition identify_faces ::
  "('img, 'e) face_recognition \<Rightarrow> 'e face_service \<Rightarrow> 'e list \<Rightarrow> exception + string option list" where
  "identify_faces lib self face_encodings_in =
     (if known_encodings self = [] then Inr (replicate (length face_encodings_in) None)
      else identify_loop lib self face_encodings_in)"

text \<open>
  \<^verbatim>\<open>list(dict.fromkeys(valid_names))\<close>: the keys of an insertion-ordered dictionary, built by
  inserting the names from left to right; a key that is already present keeps its position.
\<close>

definition dict_fromkeys :: "'a list \<Rightarrow> 'a list" where
  "dict_fromkeys keys = fold (\<lambda>k d. if k \<in> set d then d else d @ [k]) keys []"

text \<open>
  \<^verbatim>\<open>process_image_for_rename\<close>: the whole body is inside \<^verbatim>\<open>try\<close>, and the handler returns the
  empty list, so the result type is a plain list.
\<close>

definition process_image_for_rename ::
  "('img, 'e) face_recognition \<Rightarrow> 'e face_service \<Rightarrow> filesystem \<Rightarrow> path \<Rightarrow> string list" where
  "process_image_for_rename lib self fs image_path =
     (case detect_faces_in_image lib fs image_path of
        Inl e \<Rightarrow> []
      | Inr face_data \<Rightarrow>
          if face_data = [] then []
          else
            (case identify_faces lib self (map fst face_data) of
               Inl e \<Rightarrow> []
             | Inr identified_names \<Rightarrow>
                 (let valid_names = map the (filter (\<lambda>nm. nm \<noteq> None) identified_names);
                      unique_names = dict_fromkeys valid_names
                  in take max_names_per_file unique_names)))"

section \<open>\<^verbatim>\<open>core/rename_service.py\<close> and \<^verbatim>\<open>core/rename_service_minimal.py\<close>\<close>

text \<open>
  More string operations: \<^verbatim>\<open>s.lower()\<close> (on the ASCII letters; other bytes are kept),
  \<^verbatim>\<open>sep.join(names)\<close>, \<^verbatim>\<open>s.startswith(prefix)\<close> and the substring test \<^verbatim>\<open>sub in s\<close>.
\<close>

definition lower_char :: "char \<Rightarrow> char" where
  "lower_char c =
     (case map_of (zip ''ABCDEFGHIJKLMNOPQRSTUVWXYZ'' ''abcdefghijklmnopqrstuvwxyz'') c of
        None \<Rightarrow> c
      | Some l \<Rightarrow> l)"

definition str_lower :: "string \<Rightarrow> string" where
  "str_lower s = map lower_char s"

fun str_join :: "string \<Rightarrow> string list \<Rightarrow> string" where
  "str_join sep [] = []"
| "str_join sep [x] = x"
| "str_join sep (x # y # ys) = x @ sep @ str_join sep (y # ys)"



text \<open>
  The filename deriver, in its two variants: \<^verbatim>\<open>RenameService.generate_new_filename\<close> and
  \<^verbatim>\<open>RenameServiceMinimal.generate_new_filename\<close>.
\<close>

definition generate_new_filename :: "string list \<Rightarrow> path \<Rightarrow> string" where
  "generate_new_filename names original_path =
     (if names = [] then name original_path
      else
        (let name_part = str_join name_separator names;
             extension = str_lower (suffix original_path)
         in name_part @ extension))"

definition generate_new_filename_minimal :: "string list \<Rightarrow> path \<Rightarrow> string" where
  "generate_new_filename_minimal identified_names original_path =
     (if identified_names = [] then name original_path
      else
        (let names_to_use = take max_names_per_file identified_names;
             clean_names = map clean_filename names_to_use;
             clean_names = filter (\<lambda>nm. nm \<noteq> []) clean_names
         in if clean_names = [] then name original_path
            else
              (let new_stem = str_join name_separator clean_names
               in new_stem @ suffix original_path)))"

text \<open>
  The message texts of \<^verbatim>\<open>rename_single_file\<close>, as UTF-8 bytes: "unsupported format: ",
  "could not recognise a face" and "rename processing error: " in the Japanese of the source.
\<close>

definition MSG_UNSUPPORTED :: string where
  "MSG_UNSUPPORTED =
     [CHR 0xE9, CHR 0x9D, CHR 0x9E, CHR 0xE5, CHR 0xAF, CHR 0xBE, CHR 0xE5, CHR 0xBF, CHR 0x9C,
      CHR 0xE3, CHR 0x83, CHR 0x95, CHR 0xE3, CHR 0x82, CHR 0xA9, CHR 0xE3, CHR 0x83, CHR 0xBC,
      CHR 0xE3, CHR 0x83, CHR 0x9E, CHR 0xE3, CHR 0x83, CHR 0x83, CHR 0xE3, CHR 0x83, CHR 0x88,
      CHR '':'', CHR 0x20]"

definition MSG_NO_FACE :: string where
  "MSG_NO_FACE =
     [CHR 0xE9, CHR 0xA1, CHR 0x94, CHR 0xE3, CHR 0x82, CHR 0x92, CHR 0xE8, CHR 0xAA, CHR 0x8D,
      CHR 0xE8, CHR 0xAD, CHR 0x98, CHR 0xE3, CHR 0x81, CHR 0xA7, CHR 0xE3, CHR 0x81, CHR 0x8D,
      CHR 0xE3, CHR 0x81, CHR 0xBE, CHR 0xE3, CHR 0x81, CHR 0x9B, CHR 0xE3, CHR 0x82, CHR 0x93,
      CHR 0xE3, CHR 0x81, CHR 0xA7, CHR 0xE3, CHR 0x81, CHR 0x97, CHR 0xE3, CHR 0x81, CHR 0x9F]"

definition MSG_RENAME_ERROR :: string where
  "MSG_RENAME_ERROR =
     [CHR 0xE3, CHR 0x83, CHR 0xAA, CHR 0xE3, CHR 0x83, CHR 0x8D, CHR 0xE3, CHR 0x83, CHR 0xBC,
      CHR 0xE3, CHR 0x83, CHR 0xA0, CHR 0xE5, CHR 0x87, CHR 0xA6, CHR 0xE7, CHR 0x90, CHR 0x86,
      CHR 0xE3, CHR 0x82, CHR 0xA8, CHR 0xE3, CHR 0x83, CHR 0xA9, CHR 0xE3, CHR 0x83, CHR 0xBC,
      CHR '':'', CHR 0x20]"

text \<open>
  The result dictionary of \<^verbatim>\<open>rename_single_file\<close>, without its wall-clock field
  \<^verbatim>\<open>processing_time\<close>; paths are kept as paths where the source stores \<^verbatim>\<open>str(path)\<close>.
  \<^verbatim>\<open>image_path.rename(target_path)\<close> is the host's rename, a parameter: it either raises or
  returns the changed file system.
\<close>

record rename_result =
  original_path :: path
  success :: bool
  new_path :: "path option"
  identified_names :: "string list"
  error :: "string option"

type_synonym rename_syscall = "filesystem \<Rightarrow> path \<Rightarrow> path \<Rightarrow> exception + filesystem"

definition rename_single_file ::
  "('img, 'e) face_recognition \<Rightarrow> 'e face_service \<Rightarrow> rename_syscall \<Rightarrow> nat \<Rightarrow>
   filesystem \<Rightarrow> path \<Rightarrow> bool \<Rightarrow> rename_result \<times> filesystem" where
  "rename_single_file lib face_service os_rename now fs image_path dry_run =
     (let result = \<lparr>original_path = image_path, success = False, new_path = None,
                     identified_names = [], error = None\<rparr>
      in if str_lower (suffix image_path) \<notin> SUPPORTED_IMAGE_FORMATS then
           (result\<lparr>error := Some (MSG_UNSUPPORTED @ suffix image_path)\<rparr>, fs)
         else
           (let identified = process_image_for_rename lib face_service fs image_path;
                result = result\<lparr>identified_names := identified\<rparr>
            in if identified = [] then (result\<lparr>error := Some MSG_NO_FACE\<rparr>, fs)
               else
                 (let new_filename = generate_new_filename identified image_path;
                      target_path = joinpath (parent image_path) new_filename;
                      target_path =
                        (if target_path \<noteq> image_path
                         then resolve_filename_conflict fs now target_path
                         else target_path);
                      result = result\<lparr>new_path := Some target_path\<rparr>
                  in if \<not> dry_run \<and> target_path \<noteq> image_path then
                       (case os_rename fs image_path target_path of
                          Inl e \<Rightarrow>
                            (result\<lparr>error := Some (MSG_RENAME_ERROR @ str_exception e)\<rparr>, fs)
                        | Inr fs' \<Rightarrow> (result\<lparr>success := True\<rparr>, fs'))
                     else (result\<lparr>success := True\<rparr>, fs))))"





section \<open>Auxiliary notions used in the statements\<close>

text \<open>
  What a sanitized name looks like: non-empty, free of the invalid characters, without two
  adjacent underscores, and neither starting nor ending with a period or a space.
\<close>

definition no_invalid :: "string \<Rightarrow> bool" where
  "no_invalid s = (set s \<inter> set invalid_chars = {})"

definition stripped :: "string \<Rightarrow> string \<Rightarrow> bool" where
  "stripped cs s = (s = [] \<or> (hd s \<notin> set cs \<and> last s \<notin> set cs))"

definition is_clean :: "string \<Rightarrow> bool" where
  "is_clean s = (s \<noteq> [] \<and> no_invalid s \<and> \<not> has_double_underscore s \<and> stripped ''. '' s)"

text \<open>
  Abbreviations for the per-file pipeline: the format check, the initial result dictionary, and
  the target path after conflict resolution.
\<close>

definition supported :: "path \<Rightarrow> bool" where
  "supported p = (str_lower (suffix p) \<in> SUPPORTED_IMAGE_FORMATS)"

definition blank_result :: "path \<Rightarrow> rename_result" where
  "blank_result p = \<lparr>original_path = p, success = False, new_path = None,
     identified_names = [], error = None\<rparr>"

definition final_target :: "filesystem \<Rightarrow> nat \<Rightarrow> path \<Rightarrow> string list \<Rightarrow> path" where
  "final_target fs now p names =
     (let target_path = joinpath (parent p) (generate_new_filename names p)
      in if target_path \<noteq> p then resolve_filename_conflict fs now target_path else target_path)"

text \<open>
  The matcher as the specification words it: the minimum of the distances, compared with the
  tolerance, and the name at the first position that attains the minimum; \<open>nearest\<close> is that
  position.
\<close>

definition first_index_of :: "'a list \<Rightarrow> 'a \<Rightarrow> nat" where
  "first_index_of xs v = length (takeWhile (\<lambda>x. x \<noteq> v) xs)"

definition match_spec :: "real \<Rightarrow> string list \<Rightarrow> real list \<Rightarrow> string option" where
  "match_spec tol names ds =
     (if ds = [] then None
      else if Min (set ds) \<le> tol then Some (names ! first_index_of ds (Min (set ds)))
      else None)"

definition nearest :: "real list \<Rightarrow> nat" where
  "nearest ds = first_index_of ds (Min (set ds))"

text \<open>Deduplication that keeps the first occurrence of every element, in order.\<close>

fun first_occurrences :: "'a list \<Rightarrow> 'a list" where
  "first_occurrences [] = []"
| "first_occurrences (x # xs) = x # first_occurrences (removeAll x xs)"


section \<open>Concrete scenarios\<close>






text \<open>
  A rename that moves an existing file, and one that fails as in a read-only directory.
\<close>

definition posix_rename :: rename_syscall where
  "posix_rename fs src dst =
     (case fs src of
        None \<Rightarrow> Inl (FileNotFoundError ''[Errno 2] No such file or directory'')
      | Some st_size \<Rightarrow> Inr (fs(src := None, dst \<mapsto> st_size)))"

definition readonly_rename :: rename_syscall where
  "readonly_rename fs src dst = Inl (OSError ''[Errno 13] Permission denied'')"

text \<open>
  An album of five photos of 2048 bytes each: the library finds no face in \<^verbatim>\<open>IMG_1.jpg\<close> and
  \<^verbatim>\<open>IMG_2.jpg\<close>, fails to load \<^verbatim>\<open>IMG_3.jpg\<close>, and finds one face in \<^verbatim>\<open>IMG_4.jpg\<close> (encoding
  0.5) and one in \<^verbatim>\<open>IMG_5.JPG\<close> (encoding 10). Encodings are real numbers and the distance is
  the absolute difference. The gallery knows Alice (0.25) and Bob (10).
\<close>

definition photo :: "string \<Rightarrow> path" where
  "photo file_name = \<lparr>parent = ''/photos'', name = file_name\<rparr>"

definition album_files :: "path list" where
  "album_files = [photo ''IMG_1.jpg'', photo ''IMG_2.jpg'', photo ''IMG_3.jpg'', photo ''IMG_4.jpg'', photo ''IMG_5.JPG'']"

definition album_fs :: filesystem where
  "album_fs = map_of (map (\<lambda>p. (p, 2048)) album_files)"

definition album_lib :: "(string, real) face_recognition" where
  "album_lib =
     \<lparr>load_image_from_file =
        (\<lambda>p. if name p = ''IMG_3.jpg'' then Inl (OSError ''cannot identify image file'')
             else Inr (name p)),
      face_locations =
        (\<lambda>img. if img = ''IMG_4.jpg'' \<or> img = ''IMG_5.JPG'' then Inr [(0, 64, 64, 0)] else Inr []),
      face_encodings =
        (\<lambda>img locations. Inr (map (\<lambda>_. if img = ''IMG_4.jpg'' then 1 / 2 else 10) locations)),
      face_distance = (\<lambda>known encoding. Inr (map (\<lambda>k. \<bar>k - encoding\<bar>) known))\<rparr>"

definition album_gallery :: "(nat \<times> string \<times> real) list" where
  "album_gallery = [(1, ''Alice'', 1 / 4), (2, ''Bob'', 10)]"



text \<open>
  A group photo with seven faces; the encoding of a face is the top coordinate of its box.
  The faces match Eve, Dan, Eve, nobody, Carol, Bob and Alice, in detection order.
\<close>

definition party_gallery :: "(nat \<times> string \<times> real) list" where
  "party_gallery =
     [(1, ''Alice'', 0), (2, ''Bob'', 10), (3, ''Carol'', 20), (4, ''Dan'', 30), (5, ''Eve'', 40)]"

definition party_lib :: "(string, real) face_recognition" where
  "party_lib =
     \<lparr>load_image_from_file = (\<lambda>p. Inr (name p)),
      face_locations =
        (\<lambda>img. Inr [(40, 1, 41, 0), (30, 3, 31, 2), (40, 5, 41, 4), (95, 7, 96, 6),
                    (20, 9, 21, 8), (10, 11, 11, 10), (0, 13, 1, 12)]),
      face_encodings = (\<lambda>img locations. Inr (map (\<lambda>(top, right, bottom, left). of_int top) locations)),
      face_distance = (\<lambda>known encoding. Inr (map (\<lambda>k. \<bar>k - encoding\<bar>) known))\<rparr>"

definition party_fs :: filesystem where
  "party_fs = [photo ''party.jpg'' \<mapsto> 4096]"

text \<open>
  The album library with a \<^verbatim>\<open>face_distance\<close> that raises, as on encodings of different
  dimensions, and a directory whose photo exceeds the size limit of 50 MB.
\<close>

definition mismatch_lib :: "(string, real) face_recognition" where
  "mismatch_lib =
     album_lib\<lparr>face_distance :=
       (\<lambda>known encoding. Inl (ValueError ''operands could not be broadcast together''))\<rparr>"

definition huge_fs :: filesystem where
  "huge_fs = [photo ''IMG_4.jpg'' \<mapsto> 60 * 1024 * 1024]"


definition album_fs_1 :: filesystem where
  "album_fs_1 = album_fs(photo ''IMG_4.jpg'' := None, photo ''Alice.jpg'' \<mapsto> 2048)"


section \<open>Properties of the sanitizer\<close>

lemma fold_replace_set:
  "set (fold (\<lambda>char cleaned. str_replace_char char CHR ''_'' cleaned) cs s) \<subseteq> (set s - set cs) \<union> {CHR ''_''}"
proof (induction cs arbitrary: s)
  case Nil
  show ?case by auto
next
  case (Cons c cs)
  have "set (str_replace_char c CHR ''_'' s) \<subseteq> (set s - {c}) \<union> {CHR ''_''}"
    by (auto simp: str_replace_char_def)
  with Cons [of "str_replace_char c CHR ''_'' s"] show ?case by auto
qed

lemma fold_replace_id:
  "set s \<inter> set cs = {} \<Longrightarrow> fold (\<lambda>char cleaned. str_replace_char char CHR ''_'' cleaned) cs s = s"
proof (induction cs arbitrary: s)
  case (Cons c cs)
  have "str_replace_char c CHR ''_'' s = s"
    using Cons.prems by (auto simp: str_replace_char_def intro: map_idI)
  with Cons show ?case by auto
qed simp

lemma replace_double_underscore_set: "set (replace_double_underscore s) \<subseteq> set s"
  by (induction s rule: replace_double_underscore.induct) auto

lemma collapse_set: "set (collapse_underscores s) \<subseteq> set s"
proof (induction s rule: collapse_underscores.induct)
  case (1 s)
  show ?case
  proof (cases "has_double_underscore s")
    case True
    with 1 replace_double_underscore_set [of s] show ?thesis
      by (subst collapse_underscores.simps) auto
  next
    case False
    then show ?thesis by (subst collapse_underscores.simps) simp
  qed
qed

lemma collapse_no_double: "\<not> has_double_underscore (collapse_underscores s)"
proof (induction s rule: collapse_underscores.induct)
  case (1 s)
  then show ?case by (subst collapse_underscores.simps) auto
qed

lemma collapse_id: "\<not> has_double_underscore s \<Longrightarrow> collapse_underscores s = s"
  by (subst collapse_underscores.simps) simp

lemma has_double_iff: "has_double_underscore s \<longleftrightarrow> (\<exists>p q. s = p @ ''__'' @ q)"
proof (induction s rule: has_double_underscore.induct)
  case (1 a b s)
  show ?case
  proof
    assume "has_double_underscore (a # b # s)"
    then consider "a = CHR ''_'' \<and> b = CHR ''_''" | "has_double_underscore (b # s)" by auto
    then show "\<exists>p q. a # b # s = p @ ''__'' @ q"
    proof cases
      case 1
      then have "a # b # s = [] @ ''__'' @ s" by simp
      then show ?thesis by blast
    next
      case 2
      with 1 obtain p q where "b # s = p @ ''__'' @ q" by auto
      then have "a # b # s = (a # p) @ ''__'' @ q" by simp
      then show ?thesis by blast
    qed
  next
    assume "\<exists>p q. a # b # s = p @ ''__'' @ q"
    then obtain p q where pq: "a # b # s = p @ ''__'' @ q" by auto
    show "has_double_underscore (a # b # s)"
    proof (cases p)
      case Nil
      with pq show ?thesis by simp
    next
      case (Cons x p')
      with pq have "b # s = p' @ ''__'' @ q" by simp
      then have "has_double_underscore (b # s)" using 1 by blast
      then show ?thesis by simp
    qed
  qed
qed (auto simp: append_eq_Cons_conv)

lemma has_double_rev: "has_double_underscore (rev s) = has_double_underscore s"
proof -
  have "\<And>s. has_double_underscore s \<Longrightarrow> has_double_underscore (rev s)"
  proof -
    fix s assume "has_double_underscore s"
    then obtain p q where "s = p @ ''__'' @ q" by (auto simp: has_double_iff)
    then have "rev s = rev q @ ''__'' @ rev p" by simp
    then show "has_double_underscore (rev s)" unfolding has_double_iff by blast
  qed
  from this [of s] this [of "rev s"] show ?thesis by auto
qed

lemma has_double_dropWhile: "has_double_underscore (dropWhile P s) \<Longrightarrow> has_double_underscore s"
proof -
  assume "has_double_underscore (dropWhile P s)"
  then obtain p q where "dropWhile P s = p @ ''__'' @ q" by (auto simp: has_double_iff)
  then have "takeWhile P s @ dropWhile P s = takeWhile P s @ (p @ ''__'' @ q)"
    by (rule arg_cong)
  then have "s = (takeWhile P s @ p) @ ''__'' @ q"
    by simp
  then show ?thesis unfolding has_double_iff by blast
qed

lemma strip_no_double: "\<not> has_double_underscore s \<Longrightarrow> \<not> has_double_underscore (str_strip cs s)"
proof
  assume n: "\<not> has_double_underscore s" and "has_double_underscore (str_strip cs s)"
  then have "has_double_underscore (dropWhile (\<lambda>c. c \<in> set cs) (rev (dropWhile (\<lambda>c. c \<in> set cs) s)))"
    by (simp add: str_strip_def has_double_rev)
  then have "has_double_underscore (rev (dropWhile (\<lambda>c. c \<in> set cs) s))"
    by (rule has_double_dropWhile)
  then have "has_double_underscore (dropWhile (\<lambda>c. c \<in> set cs) s)"
    by (simp add: has_double_rev)
  then have "has_double_underscore s" by (rule has_double_dropWhile)
  with n show False by simp
qed

lemma strip_set: "set (str_strip cs s) \<subseteq> set s"
proof
  fix x assume "x \<in> set (str_strip cs s)"
  then have "x \<in> set (dropWhile (\<lambda>c. c \<in> set cs) (rev (dropWhile (\<lambda>c. c \<in> set cs) s)))"
    by (simp add: str_strip_def)
  then have "x \<in> set (rev (dropWhile (\<lambda>c. c \<in> set cs) s))" by (rule set_dropWhileD)
  then have "x \<in> set (dropWhile (\<lambda>c. c \<in> set cs) s)" by simp
  then show "x \<in> set s" by (rule set_dropWhileD)
qed

lemma strip_stripped: "stripped cs (str_strip cs s)"
proof -
  define P where "P = (\<lambda>c. c \<in> set cs)"
  define a where "a = dropWhile P s"
  define b where "b = dropWhile P (rev a)"
  have eq: "str_strip cs s = rev b" by (simp add: str_strip_def b_def a_def P_def)
  show ?thesis
  proof (cases "b = []")
    case True then show ?thesis by (simp add: stripped_def eq)
  next
    case False
    then have hb: "\<not> P (hd b)" unfolding b_def by (rule hd_dropWhile)
    have "rev a \<noteq> []" using False unfolding b_def by auto
    then have an: "a \<noteq> []" by simp
    then have ha: "\<not> P (hd a)" unfolding a_def by (rule hd_dropWhile)
    have "last (rev a) = hd a" using an by (simp add: last_rev)
    moreover have "last b = last (rev a)"
    proof -
      have "last (takeWhile P (rev a) @ b) = last b" using False by (rule last_appendR)
      then show ?thesis by (simp add: b_def)
    qed
    ultimately have "last b = hd a" by simp
    then have "hd (rev b) \<notin> set cs" using ha False by (simp add: hd_rev P_def)
    moreover have "last (rev b) \<notin> set cs" using hb False by (simp add: last_rev P_def)
    ultimately show ?thesis by (simp add: stripped_def eq)
  qed
qed

lemma strip_id: "stripped cs s \<Longrightarrow> str_strip cs s = s"
proof (cases "s = []")
  case True then show ?thesis by (simp add: str_strip_def)
next
  case False
  assume "stripped cs s"
  with False have h: "hd s \<notin> set cs" and l: "last s \<notin> set cs" by (auto simp: stripped_def)
  have 1: "dropWhile (\<lambda>c. c \<in> set cs) s = s" using False h by (cases s) auto
  have "hd (rev s) \<notin> set cs" using False l by (simp add: hd_rev)
  then have 2: "dropWhile (\<lambda>c. c \<in> set cs) (rev s) = rev s" using False by (cases "rev s") auto
  show ?thesis by (simp add: str_strip_def 1 2)
qed

lemma clean_filename_fixed: "is_clean s \<Longrightarrow> clean_filename s = s"
  by (simp add: is_clean_def no_invalid_def clean_filename_def fold_replace_id collapse_id strip_id)

lemma clean_filename_is_clean: "is_clean (clean_filename x)"
proof -
  let ?a = "fold (\<lambda>char cleaned. str_replace_char char CHR ''_'' cleaned) invalid_chars x"
  let ?b = "collapse_underscores ?a"
  let ?c = "str_strip ''. '' ?b"
  have a: "no_invalid ?a" using fold_replace_set [of invalid_chars x]
    by (auto simp: no_invalid_def invalid_chars_def)
  have b: "no_invalid ?b" using a collapse_set [of ?a] by (auto simp: no_invalid_def)
  have c: "no_invalid ?c" using b strip_set [of "''. ''" ?b] by (auto simp: no_invalid_def)
  have d: "\<not> has_double_underscore ?c" by (intro strip_no_double collapse_no_double)
  have e: "stripped ''. '' ?c" by (rule strip_stripped)
  have u: "is_clean ''unnamed''" by (simp add: is_clean_def no_invalid_def invalid_chars_def stripped_def)
  show ?thesis
  proof (cases "?c = []")
    case True then show ?thesis using u by (simp add: clean_filename_def)
  next
    case False then show ?thesis using c d e by (simp add: clean_filename_def is_clean_def)
  qed
qed

text \<open>
  Claim C7. The filename sanitizer is idempotent: sanitizing an already sanitized name
  changes nothing, for every string.
\<close>

theorem clean_filename_idempotent: "clean_filename (clean_filename x) = clean_filename x"
  by (rule clean_filename_fixed [OF clean_filename_is_clean])

section \<open>The conflict resolver\<close>





lemma resolve_free: "\<not> path_exists fs t \<Longrightarrow> resolve_filename_conflict fs now t = t"
  by (simp add: resolve_filename_conflict_def resolve_probes_def)


























section \<open>The album scenario, evaluated\<close>

lemma photo_simps: "parent (photo n) = ''/photos''" "name (photo n) = n" "(photo a = photo b) = (a = b)"
  "joinpath ''/photos'' n = photo n"
  by (simp_all add: photo_def joinpath_def)

lemma suffix_photo:
  "suffix (photo ''IMG_1.jpg'') = ''.jpg''" "suffix (photo ''IMG_2.jpg'') = ''.jpg''"
  "suffix (photo ''IMG_3.jpg'') = ''.jpg''" "suffix (photo ''IMG_4.jpg'') = ''.jpg''"
  "suffix (photo ''IMG_5.JPG'') = ''.JPG''"
  by (simp_all add: suffix_def photo_simps)

lemma lower_ext: "str_lower ''.jpg'' = ''.jpg''" "str_lower ''.JPG'' = ''.jpg''"
  by (simp_all add: str_lower_def lower_char_def)

lemma supported_photo:
  "supported (photo ''IMG_1.jpg'')" "supported (photo ''IMG_2.jpg'')"
  "supported (photo ''IMG_3.jpg'')" "supported (photo ''IMG_4.jpg'')"
  "supported (photo ''IMG_5.JPG'')"
  by (simp_all add: supported_def suffix_photo lower_ext SUPPORTED_IMAGE_FORMATS_def)

lemma album_service: "FaceService album_gallery = \<lparr>known_encodings = [1/4, 10], known_names = [''Alice'', ''Bob''], tolerance = 6/10\<rparr>"
  by (simp add: FaceService_def load_known_faces_def album_gallery_def tolerance_config_def)

lemma album_identify_4: "identify_faces album_lib (FaceService album_gallery) [1/2] = Inr [Some ''Alice'']"
  by (simp add: album_service identify_faces_def identify_face_def album_lib_def argmin_def getitem_def)

lemma album_identify_5: "identify_faces album_lib (FaceService album_gallery) [10] = Inr [Some ''Bob'']"
  by (simp add: album_service identify_faces_def identify_face_def album_lib_def argmin_def getitem_def)

lemma album_detect_none: "fs (photo ''IMG_1.jpg'') = Some 2048 \<Longrightarrow> detect_faces_in_image album_lib fs (photo ''IMG_1.jpg'') = Inr []"
  "fs (photo ''IMG_2.jpg'') = Some 2048 \<Longrightarrow> detect_faces_in_image album_lib fs (photo ''IMG_2.jpg'') = Inr []"
  by (simp_all add: detect_faces_in_image_def album_lib_def photo_simps max_image_size_def)

lemma album_detect_error: "fs (photo ''IMG_3.jpg'') = Some 2048 \<Longrightarrow> detect_faces_in_image album_lib fs (photo ''IMG_3.jpg'')
    = Inl (ValueError (MSG_IMAGE_ERROR @ ''cannot identify image file''))"
  by (simp add: detect_faces_in_image_def album_lib_def photo_simps max_image_size_def)

lemma album_detect_4: "fs (photo ''IMG_4.jpg'') = Some 2048 \<Longrightarrow> detect_faces_in_image album_lib fs (photo ''IMG_4.jpg'') = Inr [(1/2, (0, 64, 64, 0))]"
  by (simp add: detect_faces_in_image_def album_lib_def photo_simps max_image_size_def)

lemma album_detect_5: "fs (photo ''IMG_5.JPG'') = Some 2048 \<Longrightarrow> detect_faces_in_image album_lib fs (photo ''IMG_5.JPG'') = Inr [(10, (0, 64, 64, 0))]"
  by (simp add: detect_faces_in_image_def album_lib_def photo_simps max_image_size_def)

lemma album_process:
  "fs (photo ''IMG_1.jpg'') = Some 2048 \<Longrightarrow> process_image_for_rename album_lib (FaceService album_gallery) fs (photo ''IMG_1.jpg'') = []"
  "fs (photo ''IMG_2.jpg'') = Some 2048 \<Longrightarrow> process_image_for_rename album_lib (FaceService album_gallery) fs (photo ''IMG_2.jpg'') = []"
  "fs (photo ''IMG_3.jpg'') = Some 2048 \<Longrightarrow> process_image_for_rename album_lib (FaceService album_gallery) fs (photo ''IMG_3.jpg'') = []"
  "fs (photo ''IMG_4.jpg'') = Some 2048 \<Longrightarrow> process_image_for_rename album_lib (FaceService album_gallery) fs (photo ''IMG_4.jpg'') = [''Alice'']"
  "fs (photo ''IMG_5.JPG'') = Some 2048 \<Longrightarrow> process_image_for_rename album_lib (FaceService album_gallery) fs (photo ''IMG_5.JPG'') = [''Bob'']"
  by (simp_all add: process_image_for_rename_def album_detect_none album_detect_error album_detect_4 album_detect_5 album_identify_4 album_identify_5 dict_fromkeys_def max_names_per_file_def)

lemma album_new_names: "generate_new_filename [''Alice''] (photo ''IMG_4.jpg'') = ''Alice.jpg''"
   "generate_new_filename [''Bob''] (photo ''IMG_5.JPG'') = ''Bob.jpg''"
  by (simp_all add: generate_new_filename_def suffix_photo lower_ext name_separator_def)

lemma album_target_4: "fs (photo ''Alice.jpg'') = None \<Longrightarrow> final_target fs now (photo ''IMG_4.jpg'') [''Alice''] = photo ''Alice.jpg''"
  by (simp add: final_target_def album_new_names photo_simps resolve_free path_exists_def)

lemma album_fs_simps:
  "album_fs (photo ''IMG_1.jpg'') = Some 2048" "album_fs (photo ''IMG_2.jpg'') = Some 2048"
  "album_fs (photo ''IMG_3.jpg'') = Some 2048" "album_fs (photo ''IMG_4.jpg'') = Some 2048"
  "album_fs (photo ''IMG_5.JPG'') = Some 2048" "album_fs (photo ''Alice.jpg'') = None"
  "album_fs (photo ''Bob.jpg'') = None"
  by (simp_all add: album_fs_def album_files_def photo_simps)

section \<open>The matcher and the batch classifier\<close>

lemma first_index_of_Cons:
  "first_index_of (x # xs) v = (if x = v then 0 else Suc (first_index_of xs v))"
  by (simp add: first_index_of_def)

lemma first_index_of_less: "v \<in> set xs \<Longrightarrow> first_index_of xs v < length xs"
  by (induction xs) (auto simp: first_index_of_Cons)

lemma first_index_of_nth: "v \<in> set xs \<Longrightarrow> xs ! first_index_of xs v = v"
  by (induction xs) (auto simp: first_index_of_Cons)

lemma first_index_of_first: "j < first_index_of xs v \<Longrightarrow> xs ! j \<noteq> v"
proof (induction xs arbitrary: j)
  case Nil
  then show ?case by (simp add: first_index_of_def)
next
  case (Cons x xs)
  then show ?case by (cases j) (auto simp: first_index_of_Cons split: if_splits)
qed

lemma Min_Cons_keep:
  fixes x :: real
  assumes "y \<in> set xs" "y < x"
  shows "Min (set xs) < x" "Min (set (x # xs)) = Min (set xs)"
proof -
  have ne: "set xs \<noteq> {}" using assms by auto
  show lt: "Min (set xs) < x" using assms ne by (auto simp: Min_less_iff)
  have "Min (insert x (set xs)) = min x (Min (set xs))" using ne by (simp add: Min_insert)
  then show "Min (set (x # xs)) = Min (set xs)" using lt by (simp add: min_def)
qed

lemma Min_Cons_head:
  fixes x :: real
  assumes "\<forall>y\<in>set xs. x \<le> y"
  shows "Min (set (x # xs)) = x"
  using assms by (auto intro: Min_eqI)

lemma argmin_from_spec:
  "argmin_from best best_idx i xs =
     (if \<exists>x\<in>set xs. x < best then i + first_index_of xs (Min (set xs)) else best_idx)"
proof (induction xs arbitrary: best best_idx i)
  case Nil
  show ?case by simp
next
  case (Cons x xs)
  show ?case
  proof (cases "x < best")
    case True
    show ?thesis
    proof (cases "\<exists>y\<in>set xs. y < x")
      case True
      then obtain y where y: "y \<in> set xs" "y < x" by blast
      note k = Min_Cons_keep [OF y]
      with True \<open>x < best\<close> show ?thesis
        by (simp add: Cons.IH first_index_of_Cons)
    next
      case False
      then have "\<forall>y\<in>set xs. x \<le> y" by auto
      then have "Min (set (x # xs)) = x" by (rule Min_Cons_head)
      with False \<open>x < best\<close> show ?thesis
        by (simp add: Cons.IH first_index_of_Cons)
    qed
  next
    case False
    show ?thesis
    proof (cases "\<exists>y\<in>set xs. y < best")
      case True
      then obtain y where y: "y \<in> set xs" "y < best" by blast
      from y False have y': "y < x" by simp
      note k = Min_Cons_keep [OF y(1) y']
      with True False show ?thesis
        by (auto simp add: Cons.IH first_index_of_Cons)
    next
      case F2: False
      with False show ?thesis by (simp add: Cons.IH)
    qed
  qed
qed

lemma argmin_spec: "ds \<noteq> [] \<Longrightarrow> argmin ds = Inr (first_index_of ds (Min (set ds)))"
proof (cases ds)
  case Nil
  assume "ds \<noteq> []" with Nil show ?thesis by simp
next
  case (Cons x xs)
  show ?thesis
  proof (cases "\<exists>y\<in>set xs. y < x")
    case True
    then obtain y where y: "y \<in> set xs" "y < x" by blast
    note k = Min_Cons_keep [OF y]
    with True show ?thesis
      by (simp add: Cons argmin_def argmin_from_spec first_index_of_Cons)
  next
    case False
    then have "\<forall>y\<in>set xs. x \<le> y" by auto
    then have "Min (set (x # xs)) = x" by (rule Min_Cons_head)
    with False show ?thesis
      by (simp add: Cons argmin_def argmin_from_spec first_index_of_Cons)
  qed
qed

lemma load_known_faces_simps:
  "known_encodings (load_known_faces face_data self) = map (\<lambda>(person_id, nm, encoding). encoding) face_data"
  "known_names (load_known_faces face_data self) = map (\<lambda>(person_id, nm, encoding). nm) face_data"
  "tolerance (load_known_faces face_data self) = tolerance self"
  by (simp_all add: load_known_faces_def)

lemma identify_face_spec:
  assumes "face_distance lib (known_encodings self) v = Inr ds" and "ds \<noteq> []"
    and "length (known_names self) = length ds"
  shows "identify_face lib self v = Inr (match_spec (tolerance self) (known_names self) ds)"
proof -
  have m: "Min (set ds) \<in> set ds" using assms(2) by (intro Min_in) auto
  have i: "first_index_of ds (Min (set ds)) < length ds" using m by (rule first_index_of_less)
  have v: "ds ! first_index_of ds (Min (set ds)) = Min (set ds)" using m by (rule first_index_of_nth)
  show ?thesis
    using assms i v by (simp add: identify_face_def argmin_spec getitem_def match_spec_def)
qed

lemma identify_loop_spec:
  assumes "\<And>v. v \<in> set encs \<Longrightarrow> face_distance lib (known_encodings self) v = Inr (D v)"
    and "\<And>v. v \<in> set encs \<Longrightarrow> length (D v) = length (known_names self)"
    and "known_names self \<noteq> []"
  shows "identify_loop lib self encs =
     Inr (map (\<lambda>v. match_spec (tolerance self) (known_names self) (D v)) encs)"
  using assms
proof (induction encs)
  case Nil
  show ?case by simp
next
  case (Cons v encs)
  have d: "face_distance lib (known_encodings self) v = Inr (D v)" using Cons.prems(1) by simp
  have l: "length (known_names self) = length (D v)" using Cons.prems(2) by simp
  then have ne: "D v \<noteq> []" using Cons.prems(3) by auto
  have "identify_loop lib self encs =
     Inr (map (\<lambda>v. match_spec (tolerance self) (known_names self) (D v)) encs)"
    using Cons.prems by (intro Cons.IH) simp_all
  then show ?case by (simp add: identify_face_spec [OF d ne l])
qed

lemma dict_fromkeys_fold:
  "fold (\<lambda>k d. if k \<in> set d then d else d @ [k]) keys acc =
     acc @ first_occurrences (filter (\<lambda>k. k \<notin> set acc) keys)"
proof (induction keys arbitrary: acc)
  case Nil
  show ?case by simp
next
  case (Cons k keys)
  show ?case
  proof (cases "k \<in> set acc")
    case True
    then show ?thesis by (simp add: Cons.IH)
  next
    case False
    have "removeAll k (filter (\<lambda>k. k \<notin> set acc) keys) = filter (\<lambda>x. x \<notin> set (acc @ [k])) keys"
      by (induction keys) auto
    with False show ?thesis by (simp add: Cons.IH)
  qed
qed

lemma dict_fromkeys_first_occurrences: "dict_fromkeys keys = first_occurrences keys"
  by (simp add: dict_fromkeys_def dict_fromkeys_fold)

lemma set_first_occurrences: "set (first_occurrences xs) = set xs"
proof (induction xs rule: first_occurrences.induct)
  case 1 show ?case by simp
next
  case (2 x xs) then show ?case by auto
qed

lemma distinct_first_occurrences: "distinct (first_occurrences xs)"
proof (induction xs rule: first_occurrences.induct)
  case 1 show ?case by simp
next
  case (2 x xs) then show ?case by (simp add: set_first_occurrences)
qed

lemma first_occurrences_distinct: "distinct xs \<Longrightarrow> first_occurrences xs = xs"
  by (induction xs) (simp_all add: removeAll_id)

lemma process_image_for_rename_spec:
  assumes "detect_faces_in_image lib fs image_path = Inr face_data"
    and "identify_faces lib self (map fst face_data) = Inr identified"
  shows "process_image_for_rename lib self fs image_path =
     take max_names_per_file (first_occurrences (map the (filter (\<lambda>nm. nm \<noteq> None) identified)))"
proof (cases "face_data = []")
  case True
  with assms(2) have "identified = []" by (auto simp: identify_faces_def split: if_splits)
  with True assms(1) show ?thesis by (simp add: process_image_for_rename_def)
next
  case False
  with assms show ?thesis
    by (simp add: process_image_for_rename_def dict_fromkeys_first_occurrences)
qed

lemma nearest_props:
  assumes "ds \<noteq> []"
  shows "nearest ds < length ds" "ds ! nearest ds = Min (set ds)"
    "\<And>j. j < nearest ds \<Longrightarrow> ds ! j \<noteq> Min (set ds)"
proof -
  have m: "Min (set ds) \<in> set ds" using assms by (intro Min_in) auto
  show "nearest ds < length ds" unfolding nearest_def using m by (rule first_index_of_less)
  show "ds ! nearest ds = Min (set ds)" unfolding nearest_def using m by (rule first_index_of_nth)
  show "\<And>j. j < nearest ds \<Longrightarrow> ds ! j \<noteq> Min (set ds)"
    unfolding nearest_def by (rule first_index_of_first)
qed


lemma load_known_names_nth:
  "i < length face_data \<Longrightarrow>
   known_names (load_known_faces face_data self) ! i = fst (snd (face_data ! i))"
  by (simp add: load_known_faces_simps split_def)

lemma FaceService_tolerance: "tolerance (FaceService face_data) = 6 / 10"
  by (simp add: FaceService_def load_known_faces_simps tolerance_config_def)

lemma identify_faces_empty_gallery:
  "identify_faces lib (load_known_faces [] self) encs = Inr (replicate (length encs) None)"
  by (simp add: identify_faces_def load_known_faces_simps)

lemma identify_faces_spec:
  assumes "face_data \<noteq> []"
    and "\<And>v. v \<in> set encs \<Longrightarrow>
      face_distance lib (map (\<lambda>(person_id, nm, encoding). encoding) face_data) v = Inr (D v)"
    and "\<And>v. v \<in> set encs \<Longrightarrow> length (D v) = length face_data"
  shows "identify_faces lib (load_known_faces face_data self) encs =
     Inr (map (\<lambda>v. if Min (set (D v)) \<le> tolerance self
                     then Some (fst (snd (face_data ! nearest (D v)))) else None) encs)"
proof -
  let ?svc = "load_known_faces face_data self"
  have "identify_loop lib ?svc encs =
     Inr (map (\<lambda>v. match_spec (tolerance ?svc) (known_names ?svc) (D v)) encs)"
    using assms by (intro identify_loop_spec) (simp_all add: load_known_faces_simps)
  moreover have "match_spec (tolerance ?svc) (known_names ?svc) (D v) =
     (if Min (set (D v)) \<le> tolerance self
      then Some (fst (snd (face_data ! nearest (D v)))) else None)" if "v \<in> set encs" for v
  proof -
    have "length (D v) = length face_data" using assms(3) that by simp
    then have ne: "D v \<noteq> []" using assms(1) by auto
    have "nearest (D v) < length face_data" using nearest_props(1) [OF ne] assms(3) that by simp
    then show ?thesis
      using ne by (simp add: match_spec_def load_known_names_nth nearest_def [symmetric]
          load_known_faces_simps(3))
  qed
  ultimately show ?thesis using assms(1)
    by (simp add: identify_faces_def load_known_faces_simps(1) cong: map_cong)
qed

lemma album_distance:
  "face_distance album_lib known v = Inr (map (\<lambda>k. \<bar>k - v\<bar>) known)"
  by (simp add: album_lib_def)

text \<open>
  Claim C3. For every query vector and every gallery: with an empty gallery the matcher
  answers "no match" for each query; otherwise, when \<open>face_distance\<close> returns one distance per
  gallery vector, the matcher answers with the owner name of a gallery vector at minimum
  distance when that minimum is at most the tolerance, and "no match" when it is larger.
  The tolerance of a freshly constructed service is the configured 0.6.
\<close>

theorem identify_faces_nearest_within_tolerance:
  "identify_faces lib (load_known_faces [] self) encs = Inr (replicate (length encs) None) \<and>
   (face_data \<noteq> [] \<and>
    (\<forall>v\<in>set encs.
       face_distance lib (map (\<lambda>(person_id, nm, encoding). encoding) face_data) v = Inr (D v) \<and>
       length (D v) = length face_data) \<longrightarrow>
    identify_faces lib (load_known_faces face_data self) encs =
      Inr (map (\<lambda>v. if Min (set (D v)) \<le> tolerance self
                      then Some (fst (snd (face_data ! nearest (D v)))) else None) encs) \<and>
    (\<forall>v\<in>set encs. nearest (D v) < length face_data \<and> D v ! nearest (D v) = Min (set (D v)))) \<and>
   tolerance (FaceService face_data) = 6 / 10 \<and>
   FaceService face_data =
     load_known_faces face_data \<lparr>known_encodings = [], known_names = [], tolerance = 6 / 10\<rparr>"
proof -
  have a: "identify_faces lib (load_known_faces [] self) encs = Inr (replicate (length encs) None)"
    by (rule identify_faces_empty_gallery)
  have b: "identify_faces lib (load_known_faces face_data self) encs =
      Inr (map (\<lambda>v. if Min (set (D v)) \<le> tolerance self
                      then Some (fst (snd (face_data ! nearest (D v)))) else None) encs) \<and>
    (\<forall>v\<in>set encs. nearest (D v) < length face_data \<and> D v ! nearest (D v) = Min (set (D v)))"
    if h: "face_data \<noteq> [] \<and>
      (\<forall>v\<in>set encs.
         face_distance lib (map (\<lambda>(person_id, nm, encoding). encoding) face_data) v = Inr (D v) \<and>
         length (D v) = length face_data)"
  proof
    show "identify_faces lib (load_known_faces face_data self) encs =
      Inr (map (\<lambda>v. if Min (set (D v)) \<le> tolerance self
                      then Some (fst (snd (face_data ! nearest (D v)))) else None) encs)"
      using h by (intro identify_faces_spec) simp_all
    show "\<forall>v\<in>set encs. nearest (D v) < length face_data \<and> D v ! nearest (D v) = Min (set (D v))"
    proof
      fix v assume "v \<in> set encs"
      with h have l: "length (D v) = length face_data" by simp
      with h have "D v \<noteq> []" by auto
      from nearest_props(1,2) [OF this] l
      show "nearest (D v) < length face_data \<and> D v ! nearest (D v) = Min (set (D v))" by simp
    qed
  qed
  have c: "tolerance (FaceService face_data) = 6 / 10" by (rule FaceService_tolerance)
  have d: "FaceService face_data =
     load_known_faces face_data \<lparr>known_encodings = [], known_names = [], tolerance = 6 / 10\<rparr>"
    by (simp add: FaceService_def tolerance_config_def)
  show ?thesis using a b c d by blast
qed

text \<open>
  With the album gallery (Alice at 0.25, Bob at 10) the queries 0.5, 10 and 5 are matched to
  Alice, to Bob and to nobody.
\<close>

theorem identify_faces_nearest_within_tolerance_witness:
  "identify_faces album_lib (FaceService album_gallery) [1 / 2, 10, 5] =
     Inr [Some ''Alice'', Some ''Bob'', None]"
proof -
  define D :: "real \<Rightarrow> real list" where "D v = [\<bar>1 / 4 - v\<bar>, \<bar>10 - v\<bar>]" for v
  have h: "album_gallery \<noteq> [] \<and>
    (\<forall>v\<in>set [1 / 2, 10, 5].
       face_distance album_lib (map (\<lambda>(person_id, nm, encoding). encoding) album_gallery) v
         = Inr (D v) \<and>
       length (D v) = length album_gallery)"
    by (simp add: album_distance album_gallery_def D_def)
  have n: "nearest (D (1 / 2)) = 0" "nearest (D 10) = 1"
    by (simp_all add: nearest_def D_def first_index_of_Cons)
  have m: "Min (set (D (1 / 2))) = 1 / 4" "Min (set (D 10)) = 0" "Min (set (D 5)) = 19 / 4"
    by (simp_all add: D_def)
  have "identify_faces album_lib
      (load_known_faces album_gallery \<lparr>known_encodings = [], known_names = [], tolerance = 6 / 10\<rparr>)
      [1 / 2, 10, 5] =
    Inr (map (\<lambda>v. if Min (set (D v)) \<le> 6 / 10
                   then Some (fst (snd (album_gallery ! nearest (D v)))) else None) [1 / 2, 10, 5])"
    using identify_faces_nearest_within_tolerance
      [of album_lib "\<lparr>known_encodings = [], known_names = [], tolerance = 6 / 10\<rparr>"
        "[1 / 2, 10, 5]" album_gallery D] h
    by simp
  then show ?thesis
    by (simp add: FaceService_def tolerance_config_def n m) (simp add: album_gallery_def)
qed




lemma length_first_occurrences: "length (first_occurrences xs) = card (set xs)"
  using distinct_card [OF distinct_first_occurrences, of xs] by (simp add: set_first_occurrences)

lemma valid_names_set:
  "set (map the (filter (\<lambda>nm. nm \<noteq> None) identified)) = {nm. Some nm \<in> set identified}"
  by (auto simp: image_iff) force

text \<open>
  Claim C6. Whenever detection and identification succeed, the batch classifier drops the
  unmatched results, keeps each remaining name once at the position of its first occurrence,
  and returns the first three of these names: the labels are distinct, they are matched names,
  there are \<open>min 3 k\<close> of them when \<open>k\<close> distinct people were matched (so exactly 3 for 5
  people), and when no name repeats they are simply the first three matches in detection
  order.
\<close>

theorem process_image_for_rename_labels:
  "detect_faces_in_image lib fs image_path = Inr face_data \<and>
   identify_faces lib self (map fst face_data) = Inr identified \<longrightarrow>
   process_image_for_rename lib self fs image_path =
     take 3 (first_occurrences (map the (filter (\<lambda>nm. nm \<noteq> None) identified))) \<and>
   set (map the (filter (\<lambda>nm. nm \<noteq> None) identified)) = {nm. Some nm \<in> set identified} \<and>
   distinct (process_image_for_rename lib self fs image_path) \<and>
   set (process_image_for_rename lib self fs image_path) \<subseteq> {nm. Some nm \<in> set identified} \<and>
   length (process_image_for_rename lib self fs image_path) =
     min 3 (card {nm. Some nm \<in> set identified}) \<and>
   (distinct (map the (filter (\<lambda>nm. nm \<noteq> None) identified)) \<longrightarrow>
      process_image_for_rename lib self fs image_path =
        take 3 (map the (filter (\<lambda>nm. nm \<noteq> None) identified)))"
proof
  assume h: "detect_faces_in_image lib fs image_path = Inr face_data \<and>
   identify_faces lib self (map fst face_data) = Inr identified"
  define valid where "valid = map the (filter (\<lambda>nm. nm \<noteq> None) identified)"
  define labels where "labels = process_image_for_rename lib self fs image_path"
  have eq: "labels = take 3 (first_occurrences valid)"
    using h process_image_for_rename_spec [of lib fs image_path face_data self identified]
    by (simp add: labels_def valid_def max_names_per_file_def)
  have vs: "set valid = {nm. Some nm \<in> set identified}"
    unfolding valid_def by (rule valid_names_set)
  have d: "distinct labels" unfolding eq by (simp add: distinct_first_occurrences)
  have s: "set labels \<subseteq> {nm. Some nm \<in> set identified}"
    unfolding eq vs [symmetric] using set_take_subset [of 3 "first_occurrences valid"]
    by (simp add: set_first_occurrences)
  have l: "length labels = min 3 (card {nm. Some nm \<in> set identified})"
    unfolding eq vs [symmetric] by (simp add: length_first_occurrences min.commute)
  have k: "distinct valid \<longrightarrow> labels = take 3 valid"
    unfolding eq by (simp add: first_occurrences_distinct)
  show "process_image_for_rename lib self fs image_path =
     take 3 (first_occurrences (map the (filter (\<lambda>nm. nm \<noteq> None) identified))) \<and>
   set (map the (filter (\<lambda>nm. nm \<noteq> None) identified)) = {nm. Some nm \<in> set identified} \<and>
   distinct (process_image_for_rename lib self fs image_path) \<and>
   set (process_image_for_rename lib self fs image_path) \<subseteq> {nm. Some nm \<in> set identified} \<and>
   length (process_image_for_rename lib self fs image_path) =
     min 3 (card {nm. Some nm \<in> set identified}) \<and>
   (distinct (map the (filter (\<lambda>nm. nm \<noteq> None) identified)) \<longrightarrow>
      process_image_for_rename lib self fs image_path =
        take 3 (map the (filter (\<lambda>nm. nm \<noteq> None) identified)))"
    using eq vs d s l k unfolding labels_def valid_def by blast
qed

lemma party_detect:
  "detect_faces_in_image party_lib party_fs (photo ''party.jpg'') =
     Inr [(40, (40, 1, 41, 0)), (30, (30, 3, 31, 2)), (40, (40, 5, 41, 4)), (95, (95, 7, 96, 6)),
          (20, (20, 9, 21, 8)), (10, (10, 11, 11, 10)), (0, (0, 13, 1, 12))]"
  by (simp add: detect_faces_in_image_def party_lib_def party_fs_def max_image_size_def)

lemma party_service:
  "FaceService party_gallery =
     \<lparr>known_encodings = [0, 10, 20, 30, 40],
      known_names = [''Alice'', ''Bob'', ''Carol'', ''Dan'', ''Eve''], tolerance = 6 / 10\<rparr>"
  by (simp add: FaceService_def load_known_faces_def party_gallery_def tolerance_config_def)

lemma party_identify_face:
  "identify_face party_lib (FaceService party_gallery) 40 = Inr (Some ''Eve'')"
  "identify_face party_lib (FaceService party_gallery) 30 = Inr (Some ''Dan'')"
  "identify_face party_lib (FaceService party_gallery) 95 = Inr None"
  "identify_face party_lib (FaceService party_gallery) 20 = Inr (Some ''Carol'')"
  "identify_face party_lib (FaceService party_gallery) 10 = Inr (Some ''Bob'')"
  "identify_face party_lib (FaceService party_gallery) 0 = Inr (Some ''Alice'')"
  by (simp_all add: party_service identify_face_def party_lib_def argmin_def getitem_def)

lemma party_identify:
  "identify_faces party_lib (FaceService party_gallery) [40, 30, 40, 95, 20, 10, 0] =
     Inr [Some ''Eve'', Some ''Dan'', Some ''Eve'', None, Some ''Carol'', Some ''Bob'',
          Some ''Alice'']"
  by (simp add: identify_faces_def party_identify_face) (simp add: party_service)

text \<open>
  The group photo matches five distinct people, one of them twice, and yields the three labels
  Eve, Dan, Carol; the album photo \<^verbatim>\<open>IMG_4.jpg\<close> matches Alice once and yields that one label.
\<close>

theorem process_image_for_rename_labels_witness:
  "process_image_for_rename party_lib (FaceService party_gallery) party_fs (photo ''party.jpg'') =
     [''Eve'', ''Dan'', ''Carol''] \<and>
   process_image_for_rename album_lib (FaceService album_gallery) album_fs (photo ''IMG_4.jpg'') =
     [''Alice'']"
proof -
  define faces :: "(real \<times> box) list" where
    "faces = [(40, (40, 1, 41, 0)), (30, (30, 3, 31, 2)), (40, (40, 5, 41, 4)),
       (95, (95, 7, 96, 6)), (20, (20, 9, 21, 8)), (10, (10, 11, 11, 10)), (0, (0, 13, 1, 12))]"
  define identified where
    "identified = [Some ''Eve'', Some ''Dan'', Some ''Eve'', None, Some ''Carol'', Some ''Bob'',
       Some ''Alice'']"
  have h: "detect_faces_in_image party_lib party_fs (photo ''party.jpg'') = Inr faces \<and>
    identify_faces party_lib (FaceService party_gallery) (map fst faces) = Inr identified"
    using party_detect party_identify by (simp add: faces_def identified_def)
  have a: "process_image_for_rename party_lib (FaceService party_gallery) party_fs (photo ''party.jpg'') =
     take 3 (first_occurrences (map the (filter (\<lambda>nm. nm \<noteq> None) identified)))"
    using process_image_for_rename_labels [where lib = party_lib and fs = party_fs
        and image_path = "photo ''party.jpg''" and face_data = faces
        and self = "FaceService party_gallery" and identified = identified] h
    by blast
  have h4: "detect_faces_in_image album_lib album_fs (photo ''IMG_4.jpg'') =
      Inr [(1 / 2, (0, 64, 64, 0))] \<and>
    identify_faces album_lib (FaceService album_gallery) (map fst [(1 / 2 :: real, (0 :: int, 64 :: int, 64 :: int, 0 :: int))]) =
      Inr [Some ''Alice'']"
    by (simp add: album_detect_4 album_fs_simps album_identify_4)
  have d4: "distinct (map the (filter (\<lambda>nm. nm \<noteq> None) [Some ''Alice'']))" by simp
  have b: "process_image_for_rename album_lib (FaceService album_gallery) album_fs (photo ''IMG_4.jpg'') =
     take 3 (map the (filter (\<lambda>nm. nm \<noteq> None) [Some ''Alice'']))"
    using process_image_for_rename_labels [where lib = album_lib and fs = album_fs
        and image_path = "photo ''IMG_4.jpg''" and face_data = "[(1 / 2, (0, 64, 64, 0))]"
        and self = "FaceService album_gallery" and identified = "[Some ''Alice'']"] h4 d4
    by blast
  show ?thesis using a b by (simp add: identified_def)
qed

section \<open>The per-file pipeline and the batch\<close>

lemma rename_single_file_unsupported:
  "\<not> supported p \<Longrightarrow>
   rename_single_file lib svc rn now fs p dry =
     ((blank_result p)\<lparr>error := Some (MSG_UNSUPPORTED @ suffix p)\<rparr>, fs)"
  by (simp add: rename_single_file_def supported_def blank_result_def)

lemma rename_single_file_no_names:
  "supported p \<Longrightarrow> process_image_for_rename lib svc fs p = [] \<Longrightarrow>
   rename_single_file lib svc rn now fs p dry =
     ((blank_result p)\<lparr>error := Some MSG_NO_FACE\<rparr>, fs)"
  by (simp add: rename_single_file_def supported_def blank_result_def)

lemma rename_single_file_dry:
  "supported p \<Longrightarrow> process_image_for_rename lib svc fs p = names \<Longrightarrow> names \<noteq> [] \<Longrightarrow>
   rename_single_file lib svc rn now fs p True =
     ((blank_result p)\<lparr>identified_names := names,
        new_path := Some (final_target fs now p names), success := True\<rparr>, fs)"
  by (simp add: rename_single_file_def supported_def blank_result_def final_target_def Let_def)

lemma rename_single_file_same_name:
  "supported p \<Longrightarrow> process_image_for_rename lib svc fs p = names \<Longrightarrow> names \<noteq> [] \<Longrightarrow>
   final_target fs now p names = p \<Longrightarrow>
   rename_single_file lib svc rn now fs p dry =
     ((blank_result p)\<lparr>identified_names := names,
        new_path := Some p, success := True\<rparr>, fs)"
  by (simp add: rename_single_file_def supported_def blank_result_def final_target_def Let_def)

lemma rename_single_file_renamed:
  "supported p \<Longrightarrow> process_image_for_rename lib svc fs p = names \<Longrightarrow> names \<noteq> [] \<Longrightarrow>
   final_target fs now p names \<noteq> p \<Longrightarrow> rn fs p (final_target fs now p names) = Inr fs' \<Longrightarrow>
   rename_single_file lib svc rn now fs p False =
     ((blank_result p)\<lparr>identified_names := names,
        new_path := Some (final_target fs now p names), success := True\<rparr>, fs')"
  by (simp add: rename_single_file_def supported_def blank_result_def final_target_def Let_def)

lemma rename_single_file_rename_raises:
  "supported p \<Longrightarrow> process_image_for_rename lib svc fs p = names \<Longrightarrow> names \<noteq> [] \<Longrightarrow>
   final_target fs now p names \<noteq> p \<Longrightarrow> rn fs p (final_target fs now p names) = Inl e \<Longrightarrow>
   rename_single_file lib svc rn now fs p False =
     ((blank_result p)\<lparr>identified_names := names,
        new_path := Some (final_target fs now p names),
        error := Some (MSG_RENAME_ERROR @ str_exception e)\<rparr>, fs)"
  by (simp add: rename_single_file_def supported_def blank_result_def final_target_def Let_def)










lemma album_single_4:
  "rename_single_file album_lib (FaceService album_gallery) posix_rename now album_fs
     (photo ''IMG_4.jpg'') False
   = ((blank_result (photo ''IMG_4.jpg''))\<lparr>identified_names := [''Alice''],
        new_path := Some (photo ''Alice.jpg''), success := True\<rparr>, album_fs_1)"
proof -
  have t: "final_target album_fs now (photo ''IMG_4.jpg'') [''Alice''] = photo ''Alice.jpg''"
    by (simp add: album_target_4 album_fs_simps)
  have r: "posix_rename album_fs (photo ''IMG_4.jpg'') (photo ''Alice.jpg'') = Inr album_fs_1"
    by (simp add: posix_rename_def album_fs_simps album_fs_1_def)
  have p: "process_image_for_rename album_lib (FaceService album_gallery) album_fs
     (photo ''IMG_4.jpg'') = [''Alice'']"
    by (simp add: album_process album_fs_simps)
  show ?thesis
    using rename_single_file_renamed [OF supported_photo(4) p, of now posix_rename album_fs_1]
    by (simp add: t r photo_simps)
qed




lemma process_detect_error:
  "detect_faces_in_image lib fs p = Inl e \<Longrightarrow> process_image_for_rename lib self fs p = []"
  by (simp add: process_image_for_rename_def)

lemma process_identify_error:
  "detect_faces_in_image lib fs p = Inr face_data \<Longrightarrow>
   identify_faces lib self (map fst face_data) = Inl e \<Longrightarrow>
   process_image_for_rename lib self fs p = []"
  by (simp add: process_image_for_rename_def)

lemma process_no_faces:
  "detect_faces_in_image lib fs p = Inr [] \<Longrightarrow> process_image_for_rename lib self fs p = []"
  by (simp add: process_image_for_rename_def)

lemma detect_missing:
  "fs p = None \<Longrightarrow>
   detect_faces_in_image lib fs p = Inl (FileNotFoundError (MSG_NOT_FOUND @ str_path p))"
  by (simp add: detect_faces_in_image_def)

lemma detect_oversized:
  "fs p = Some st_size \<Longrightarrow> st_size > max_image_size \<Longrightarrow>
   detect_faces_in_image lib fs p = Inl (ValueError MSG_TOO_LARGE)"
  by (simp add: detect_faces_in_image_def)

lemma detect_unreadable:
  "fs p = Some st_size \<Longrightarrow> st_size \<le> max_image_size \<Longrightarrow> load_image_from_file lib p = Inl e \<Longrightarrow>
   detect_faces_in_image lib fs p = Inl (ValueError (MSG_IMAGE_ERROR @ str_exception e))"
  by (simp add: detect_faces_in_image_def)

text \<open>
  Claim C10. \<^verbatim>\<open>process_image_for_rename\<close> returns a list of names on every input: whenever
  detection raises (the image is missing, oversized or unreadable, or the library fails) or
  identification raises, the result is the empty list, the same list as for an image without
  faces; so for a supported file the caller \<^verbatim>\<open>rename_single_file\<close> reports the very same outcome,
  "no face recognised", after a detection failure and after a detection that found no face.
\<close>

theorem process_image_for_rename_never_raises:
  "(detect_faces_in_image lib fs p = Inl e \<longrightarrow> process_image_for_rename lib self fs p = []) \<and>
   (detect_faces_in_image lib fs p = Inr face_data \<and>
    identify_faces lib self (map fst face_data) = Inl e' \<longrightarrow>
      process_image_for_rename lib self fs p = []) \<and>
   (detect_faces_in_image lib fs p = Inr [] \<longrightarrow> process_image_for_rename lib self fs p = []) \<and>
   (fs p = None \<longrightarrow>
      detect_faces_in_image lib fs p = Inl (FileNotFoundError (MSG_NOT_FOUND @ str_path p)) \<and>
      process_image_for_rename lib self fs p = []) \<and>
   (fs p = Some st_size \<and> st_size > max_image_size \<longrightarrow>
      detect_faces_in_image lib fs p = Inl (ValueError MSG_TOO_LARGE) \<and>
      process_image_for_rename lib self fs p = []) \<and>
   (fs p = Some st_size \<and> st_size \<le> max_image_size \<and> load_image_from_file lib p = Inl e'' \<longrightarrow>
      detect_faces_in_image lib fs p = Inl (ValueError (MSG_IMAGE_ERROR @ str_exception e'')) \<and>
      process_image_for_rename lib self fs p = []) \<and>
   (supported p \<and>
    (detect_faces_in_image lib fs p = Inl e \<or> detect_faces_in_image lib fs p = Inr []) \<longrightarrow>
      rename_single_file lib self rn now fs p dry =
        ((blank_result p)\<lparr>error := Some MSG_NO_FACE\<rparr>, fs))"
proof -
  have a: "detect_faces_in_image lib fs p = Inl e \<longrightarrow> process_image_for_rename lib self fs p = []"
    by (simp add: process_detect_error)
  have b: "detect_faces_in_image lib fs p = Inr face_data \<and>
    identify_faces lib self (map fst face_data) = Inl e' \<longrightarrow>
      process_image_for_rename lib self fs p = []"
    by (simp add: process_identify_error)
  have c: "detect_faces_in_image lib fs p = Inr [] \<longrightarrow> process_image_for_rename lib self fs p = []"
    by (simp add: process_no_faces)
  have d: "fs p = None \<longrightarrow>
      detect_faces_in_image lib fs p = Inl (FileNotFoundError (MSG_NOT_FOUND @ str_path p)) \<and>
      process_image_for_rename lib self fs p = []"
    by (simp add: detect_missing process_detect_error)
  have f: "fs p = Some st_size \<and> st_size > max_image_size \<longrightarrow>
      detect_faces_in_image lib fs p = Inl (ValueError MSG_TOO_LARGE) \<and>
      process_image_for_rename lib self fs p = []"
    by (simp add: detect_oversized process_detect_error)
  have g: "fs p = Some st_size \<and> st_size \<le> max_image_size \<and> load_image_from_file lib p = Inl e'' \<longrightarrow>
      detect_faces_in_image lib fs p = Inl (ValueError (MSG_IMAGE_ERROR @ str_exception e'')) \<and>
      process_image_for_rename lib self fs p = []"
    by (simp add: detect_unreadable process_detect_error)
  have h: "supported p \<and>
    (detect_faces_in_image lib fs p = Inl e \<or> detect_faces_in_image lib fs p = Inr []) \<longrightarrow>
      rename_single_file lib self rn now fs p dry =
        ((blank_result p)\<lparr>error := Some MSG_NO_FACE\<rparr>, fs)"
    using process_detect_error process_no_faces rename_single_file_no_names by blast
  show ?thesis using a b c d f g h by (intro conjI)
qed

lemma mismatch_identify:
  "identify_faces mismatch_lib (FaceService album_gallery) [1 / 2] =
     Inl (ValueError ''operands could not be broadcast together'')"
  by (simp add: album_service identify_faces_def identify_face_def mismatch_lib_def)

lemma mismatch_detect:
  "detect_faces_in_image mismatch_lib album_fs (photo ''IMG_4.jpg'') =
     Inr [(1 / 2, (0, 64, 64, 0))]"
  by (simp add: detect_faces_in_image_def mismatch_lib_def album_lib_def photo_simps
      max_image_size_def album_fs_simps)

text \<open>
  Each failure occurs and ends in the empty list: an unreadable image (\<^verbatim>\<open>IMG_3.jpg\<close>), a
  missing one (\<^verbatim>\<open>gone.jpg\<close>), an oversized one (in \<open>huge_fs\<close>) and a failing distance
  computation (\<open>mismatch_lib\<close>), like the photo without faces (\<^verbatim>\<open>IMG_1.jpg\<close>).
\<close>

theorem process_image_for_rename_never_raises_witness:
  "detect_faces_in_image album_lib album_fs (photo ''IMG_3.jpg'') =
     Inl (ValueError (MSG_IMAGE_ERROR @ ''cannot identify image file'')) \<and>
   process_image_for_rename album_lib (FaceService album_gallery) album_fs (photo ''IMG_3.jpg'') = [] \<and>
   detect_faces_in_image album_lib album_fs (photo ''IMG_1.jpg'') = Inr [] \<and>
   process_image_for_rename album_lib (FaceService album_gallery) album_fs (photo ''IMG_1.jpg'') = [] \<and>
   fst (rename_single_file album_lib (FaceService album_gallery) posix_rename 1730000000 album_fs
          (photo ''IMG_3.jpg'') False) =
     (blank_result (photo ''IMG_3.jpg''))\<lparr>error := Some MSG_NO_FACE\<rparr> \<and>
   fst (rename_single_file album_lib (FaceService album_gallery) posix_rename 1730000000 album_fs
          (photo ''IMG_1.jpg'') False) =
     (blank_result (photo ''IMG_1.jpg''))\<lparr>error := Some MSG_NO_FACE\<rparr> \<and>
   identify_faces mismatch_lib (FaceService album_gallery) [1 / 2] =
     Inl (ValueError ''operands could not be broadcast together'') \<and>
   process_image_for_rename mismatch_lib (FaceService album_gallery) album_fs (photo ''IMG_4.jpg'') = [] \<and>
   album_fs (photo ''gone.jpg'') = None \<and>
   process_image_for_rename album_lib (FaceService album_gallery) album_fs (photo ''gone.jpg'') = [] \<and>
   huge_fs (photo ''IMG_4.jpg'') = Some (60 * 1024 * 1024) \<and>
   process_image_for_rename album_lib (FaceService album_gallery) huge_fs (photo ''IMG_4.jpg'') = []"
proof -
  have d3: "detect_faces_in_image album_lib album_fs (photo ''IMG_3.jpg'') =
     Inl (ValueError (MSG_IMAGE_ERROR @ ''cannot identify image file''))"
    by (simp add: album_detect_error album_fs_simps)
  have d1: "detect_faces_in_image album_lib album_fs (photo ''IMG_1.jpg'') = Inr []"
    by (simp add: album_detect_none album_fs_simps)
  note t3 = process_image_for_rename_never_raises
    [where lib = album_lib and fs = album_fs and p = "photo ''IMG_3.jpg''"
      and e = "ValueError (MSG_IMAGE_ERROR @ ''cannot identify image file'')"
      and self = "FaceService album_gallery" and rn = posix_rename and now = 1730000000
      and dry = False and e'' = "OSError ''cannot identify image file''" and st_size = 2048]
  note t1 = process_image_for_rename_never_raises
    [where lib = album_lib and fs = album_fs and p = "photo ''IMG_1.jpg''"
      and self = "FaceService album_gallery" and rn = posix_rename and now = 1730000000
      and dry = False]
  note t4 = process_image_for_rename_never_raises
    [where lib = mismatch_lib and fs = album_fs and p = "photo ''IMG_4.jpg''"
      and self = "FaceService album_gallery"
      and face_data = "[(1 / 2, (0, 64, 64, 0))]"
      and e' = "ValueError ''operands could not be broadcast together''"]
  note tg = process_image_for_rename_never_raises
    [where lib = album_lib and fs = album_fs and p = "photo ''gone.jpg''"
      and self = "FaceService album_gallery"]
  note th = process_image_for_rename_never_raises
    [where lib = album_lib and fs = huge_fs and p = "photo ''IMG_4.jpg''"
      and self = "FaceService album_gallery" and st_size = "60 * 1024 * 1024"]
  have l3: "album_fs (photo ''IMG_3.jpg'') = Some 2048 \<and> (2048::nat) \<le> max_image_size \<and>
    load_image_from_file album_lib (photo ''IMG_3.jpg'') = Inl (OSError ''cannot identify image file'')"
    by (simp add: album_fs_simps max_image_size_def album_lib_def photo_simps)
  have p3: "process_image_for_rename album_lib (FaceService album_gallery) album_fs (photo ''IMG_3.jpg'') = []"
    using t3 l3 by blast
  have p1: "process_image_for_rename album_lib (FaceService album_gallery) album_fs (photo ''IMG_1.jpg'') = []"
    using t1 d1 by blast
  have r3: "rename_single_file album_lib (FaceService album_gallery) posix_rename 1730000000 album_fs
          (photo ''IMG_3.jpg'') False = ((blank_result (photo ''IMG_3.jpg''))\<lparr>error := Some MSG_NO_FACE\<rparr>, album_fs)"
    using t3 d3 supported_photo(3) by blast
  have r1: "rename_single_file album_lib (FaceService album_gallery) posix_rename 1730000000 album_fs
          (photo ''IMG_1.jpg'') False = ((blank_result (photo ''IMG_1.jpg''))\<lparr>error := Some MSG_NO_FACE\<rparr>, album_fs)"
    using t1 d1 supported_photo(1) by blast
  have i4: "identify_faces mismatch_lib (FaceService album_gallery) (map fst [(1 / 2 :: real, (0 :: int, 64 :: int, 64 :: int, 0 :: int))]) =
     Inl (ValueError ''operands could not be broadcast together'')"
    using mismatch_identify by simp
  have p4: "process_image_for_rename mismatch_lib (FaceService album_gallery) album_fs (photo ''IMG_4.jpg'') = []"
    using t4 mismatch_detect i4 by blast
  have g: "album_fs (photo ''gone.jpg'') = None"
    by (simp add: album_fs_def album_files_def photo_simps)
  have pg: "process_image_for_rename album_lib (FaceService album_gallery) album_fs (photo ''gone.jpg'') = []"
    using tg g by blast
  have h: "huge_fs (photo ''IMG_4.jpg'') = Some (60 * 1024 * 1024) \<and> (60 * 1024 * 1024 :: nat) > max_image_size"
    by (simp add: huge_fs_def max_image_size_def)
  have ph: "process_image_for_rename album_lib (FaceService album_gallery) huge_fs (photo ''IMG_4.jpg'') = []"
    using th h by blast
  show ?thesis using d3 d1 p3 p1 p4 pg ph g h mismatch_identify by (simp add: r3 r1)
qed

lemma clean_filename_examples: "clean_filename ''Mary|Ann'' = ''Mary_Ann''" "clean_filename ''Bob'' = ''Bob''"
  by (simp_all add: clean_filename_def invalid_chars_def str_replace_char_def str_strip_def
      collapse_underscores.simps)

text \<open>
  Claim C2 says that the filename deriver sanitizes each label before joining. The deriver of
  \<^verbatim>\<open>RenameServiceMinimal\<close> does; the deriver of \<^verbatim>\<open>RenameService\<close>, the one the rename pipeline
  calls, joins the labels as they are: for the labels \<^verbatim>\<open>Mary|Ann\<close> and \<^verbatim>\<open>Bob\<close> it yields
  \<^verbatim>\<open>Mary|Ann_Bob.jpg\<close>, where the minimal variant yields \<^verbatim>\<open>Mary_Ann_Bob.jpg\<close>.
\<close>

theorem generate_new_filename_not_sanitized:
  "generate_new_filename [''Mary|Ann'', ''Bob''] (photo ''IMG_4.jpg'') = ''Mary|Ann_Bob.jpg'' \<and>
   generate_new_filename_minimal [''Mary|Ann'', ''Bob''] (photo ''IMG_4.jpg'') = ''Mary_Ann_Bob.jpg'' \<and>
   clean_filename ''Mary|Ann'' = ''Mary_Ann''"
  by (simp add: generate_new_filename_def generate_new_filename_minimal_def suffix_photo lower_ext
      name_separator_def max_names_per_file_def clean_filename_examples)





lemma dry_run_fs: "snd (rename_single_file lib self rn now fs p True) = fs"
  by (simp add: rename_single_file_def Let_def)

lemma album_target_alice:
  "final_target album_fs now (photo ''IMG_4.jpg'') [''Alice''] = photo ''Alice.jpg''"
  by (simp add: album_target_4 album_fs_simps)

lemma album_process_4:
  "process_image_for_rename album_lib (FaceService album_gallery) album_fs
     (photo ''IMG_4.jpg'') = [''Alice'']"
  by (simp add: album_process album_fs_simps)

lemma album_dry_4:
  "rename_single_file album_lib (FaceService album_gallery) rn now album_fs
     (photo ''IMG_4.jpg'') True =
   ((blank_result (photo ''IMG_4.jpg''))\<lparr>identified_names := [''Alice''],
      new_path := Some (photo ''Alice.jpg''), success := True\<rparr>, album_fs)"
  using rename_single_file_dry [OF supported_photo(4) album_process_4, of rn now]
  by (simp add: album_target_alice)

lemma album_readonly_4:
  "rename_single_file album_lib (FaceService album_gallery) readonly_rename now album_fs
     (photo ''IMG_4.jpg'') False =
   ((blank_result (photo ''IMG_4.jpg''))\<lparr>identified_names := [''Alice''],
      new_path := Some (photo ''Alice.jpg''),
      error := Some (MSG_RENAME_ERROR @ ''[Errno 13] Permission denied'')\<rparr>, album_fs)"
proof -
  have "rename_single_file album_lib (FaceService album_gallery) readonly_rename now album_fs
     (photo ''IMG_4.jpg'') False =
   ((blank_result (photo ''IMG_4.jpg''))\<lparr>identified_names := [''Alice''],
      new_path := Some (final_target album_fs now (photo ''IMG_4.jpg'') [''Alice'']),
      error := Some (MSG_RENAME_ERROR @ str_exception (OSError ''[Errno 13] Permission denied''))\<rparr>,
    album_fs)"
  proof (rule rename_single_file_rename_raises [OF supported_photo(4) album_process_4])
    show "[''Alice''] \<noteq> []" by simp
    show "final_target album_fs now (photo ''IMG_4.jpg'') [''Alice''] \<noteq> photo ''IMG_4.jpg''"
      by (simp add: album_target_alice photo_simps)
    show "readonly_rename album_fs (photo ''IMG_4.jpg'')
      (final_target album_fs now (photo ''IMG_4.jpg'') [''Alice'']) =
      Inl (OSError ''[Errno 13] Permission denied'')" by (simp add: readonly_rename_def)
  qed
  then show ?thesis by (simp add: album_target_alice)
qed

text \<open>
  Claim C9 says that a dry run reports the same outcome fields as a non-dry run would. When
  the rename itself raises (here: the directory is read-only), the non-dry run reports
  \<open>success = False\<close> with the rename error, while the dry run, which never calls rename,
  reports \<open>success = True\<close> and no error.
\<close>

theorem dry_run_same_outcome_counterexample:
  "success (fst (rename_single_file album_lib (FaceService album_gallery) readonly_rename
      1730000000 album_fs (photo ''IMG_4.jpg'') True)) \<and>
   error (fst (rename_single_file album_lib (FaceService album_gallery) readonly_rename
      1730000000 album_fs (photo ''IMG_4.jpg'') True)) = None \<and>
   \<not> success (fst (rename_single_file album_lib (FaceService album_gallery) readonly_rename
      1730000000 album_fs (photo ''IMG_4.jpg'') False)) \<and>
   error (fst (rename_single_file album_lib (FaceService album_gallery) readonly_rename
      1730000000 album_fs (photo ''IMG_4.jpg'') False)) =
     Some (MSG_RENAME_ERROR @ ''[Errno 13] Permission denied'')"
  by (simp add: album_dry_4 album_readonly_4 blank_result_def)

text \<open>
  Claim C9 (amended). For every input file and every outcome of classification, the per-file
  pipeline with \<open>dry_run = true\<close> leaves the file system as it was, whatever the rename
  operation would do, and it reports the same original path, identified names and new path as
  the non-dry run. It reports the same success flag and error as well whenever the non-dry
  run succeeds or ends before a new path is computed; in the remaining case the non-dry run's
  rename has raised, and the dry run reports success and no error where the non-dry run
  reports the rename error.
\<close>

theorem dry_run_no_mutation:
  "snd (rename_single_file lib self rn now fs p True) = fs \<and>
   (let D = fst (rename_single_file lib self rn now fs p True);
        R = fst (rename_single_file lib self rn now fs p False)
    in original_path D = original_path R \<and>
       identified_names D = identified_names R \<and>
       new_path D = new_path R \<and>
       (success R \<or> new_path R = None \<longrightarrow> D = R) \<and>
       (\<not> success R \<and> new_path R \<noteq> None \<longrightarrow>
          D = R\<lparr>success := True, error := None\<rparr> \<and>
          (\<exists>e. rn fs p (the (new_path R)) = Inl e \<and>
               error R = Some (MSG_RENAME_ERROR @ str_exception e))))"
proof -
  define names where "names = process_image_for_rename lib self fs p"
  define t where "t = final_target fs now p names"
  have n: "process_image_for_rename lib self fs p = names" by (simp add: names_def)
  have body: "let D = fst (rename_single_file lib self rn now fs p True);
        R = fst (rename_single_file lib self rn now fs p False)
    in original_path D = original_path R \<and>
       identified_names D = identified_names R \<and>
       new_path D = new_path R \<and>
       (success R \<or> new_path R = None \<longrightarrow> D = R) \<and>
       (\<not> success R \<and> new_path R \<noteq> None \<longrightarrow>
          D = R\<lparr>success := True, error := None\<rparr> \<and>
          (\<exists>e. rn fs p (the (new_path R)) = Inl e \<and>
               error R = Some (MSG_RENAME_ERROR @ str_exception e)))"
  proof (cases "supported p")
    case False
    then show ?thesis by (simp add: rename_single_file_unsupported blank_result_def)
  next
    case sup: True
    show ?thesis
    proof (cases "names = []")
      case True
      then show ?thesis using sup n by (simp add: rename_single_file_no_names blank_result_def)
    next
      case ne: False
      note d = rename_single_file_dry [OF sup n ne, of rn now]
      show ?thesis
      proof (cases "t = p")
        case True
        then show ?thesis
          using rename_single_file_same_name [OF sup n ne, of now rn False] d
          by (simp add: t_def blank_result_def)
      next
        case moved: False
        show ?thesis
        proof (cases "rn fs p t")
          case (Inl e)
          then show ?thesis
            using rename_single_file_rename_raises [OF sup n ne, of now rn e] d moved
            by (simp add: t_def blank_result_def)
        next
          case (Inr fs')
          then show ?thesis
            using rename_single_file_renamed [OF sup n ne, of now rn fs'] d moved
            by (simp add: t_def blank_result_def)
        qed
      qed
    qed
  qed
  show ?thesis using dry_run_fs [of lib self rn now fs p] body by (intro conjI)
qed

text \<open>
  For \<^verbatim>\<open>IMG_4.jpg\<close> of the album: with a rename that succeeds, the dry run reports what the
  non-dry run reports and leaves the file in place, while the non-dry run moves it; with a
  rename that raises, the dry run differs from the non-dry run in \<open>success\<close> and \<open>error\<close> only.
\<close>

theorem dry_run_no_mutation_witness:
  "success (fst (rename_single_file album_lib (FaceService album_gallery) posix_rename
      1730000000 album_fs (photo ''IMG_4.jpg'') False)) \<and>
   fst (rename_single_file album_lib (FaceService album_gallery) posix_rename
      1730000000 album_fs (photo ''IMG_4.jpg'') True) =
   fst (rename_single_file album_lib (FaceService album_gallery) posix_rename
      1730000000 album_fs (photo ''IMG_4.jpg'') False) \<and>
   snd (rename_single_file album_lib (FaceService album_gallery) posix_rename
      1730000000 album_fs (photo ''IMG_4.jpg'') True) = album_fs \<and>
   snd (rename_single_file album_lib (FaceService album_gallery) posix_rename
      1730000000 album_fs (photo ''IMG_4.jpg'') False) (photo ''IMG_4.jpg'') = None \<and>
   \<not> success (fst (rename_single_file album_lib (FaceService album_gallery) readonly_rename
      1730000000 album_fs (photo ''IMG_4.jpg'') False)) \<and>
   new_path (fst (rename_single_file album_lib (FaceService album_gallery) readonly_rename
      1730000000 album_fs (photo ''IMG_4.jpg'') False)) = Some (photo ''Alice.jpg'') \<and>
   fst (rename_single_file album_lib (FaceService album_gallery) readonly_rename
      1730000000 album_fs (photo ''IMG_4.jpg'') True) =
   (fst (rename_single_file album_lib (FaceService album_gallery) readonly_rename
      1730000000 album_fs (photo ''IMG_4.jpg'') False))\<lparr>success := True, error := None\<rparr>"
proof -
  have s: "success (fst (rename_single_file album_lib (FaceService album_gallery) posix_rename
      1730000000 album_fs (photo ''IMG_4.jpg'') False))"
    by (simp add: album_single_4 blank_result_def)
  have g: "snd (rename_single_file album_lib (FaceService album_gallery) posix_rename
      1730000000 album_fs (photo ''IMG_4.jpg'') False) (photo ''IMG_4.jpg'') = None"
    by (simp add: album_single_4 album_fs_1_def photo_simps)
  have f: "\<not> success (fst (rename_single_file album_lib (FaceService album_gallery) readonly_rename
      1730000000 album_fs (photo ''IMG_4.jpg'') False)) \<and>
   new_path (fst (rename_single_file album_lib (FaceService album_gallery) readonly_rename
      1730000000 album_fs (photo ''IMG_4.jpg'') False)) = Some (photo ''Alice.jpg'')"
    by (simp add: album_readonly_4 blank_result_def)
  then have n: "new_path (fst (rename_single_file album_lib (FaceService album_gallery) readonly_rename
      1730000000 album_fs (photo ''IMG_4.jpg'') False)) \<noteq> None" by simp
  show ?thesis
    using dry_run_no_mutation [of album_lib "FaceService album_gallery" posix_rename
        1730000000 album_fs "photo ''IMG_4.jpg''"]
      dry_run_no_mutation [of album_lib "FaceService album_gallery" readonly_rename
        1730000000 album_fs "photo ''IMG_4.jpg''"] s g f n
    unfolding Let_def by blast
qed

end
